theory Spec2Isabelle
  imports Complex_Main
begin

section \<open>Exceptions\<close>

text \<open>
  The exceptions the script can meet, as values. \<open>FileNotFoundError\<close> and
  \<open>PermissionError\<close> are subclasses of \<open>OSError\<close> in Python; \<open>isinstance_OSError\<close> is the
  test an \<^verbatim>\<open>except OSError\<close> clause performs. \<open>Exception msg\<close> is a plain
  \<^verbatim>\<open>Exception(msg)\<close>. \<open>Unmodelled\<close> is not a Python exception: it marks a format
  template outside the fragment of \<^verbatim>\<open>str.format\<close> that is modelled below, about which
  the model says nothing.
\<close>

datatype error =
    KeyError
  | ValueError
  | IndexError
  | RuntimeError
  | OSError
  | FileNotFoundError
  | PermissionError
  | Exception string
  | Unmodelled

fun isinstance_OSError :: "error \<Rightarrow> bool" where
  "isinstance_OSError OSError = True"
| "isinstance_OSError FileNotFoundError = True"
| "isinstance_OSError PermissionError = True"
| "isinstance_OSError _ = False"

section \<open>The configuration\<close>

text \<open>
  \<^verbatim>\<open>config\<close> is the \<^verbatim>\<open>ConfigParser\<close> read at start-up. It is modelled as what the
  script sees of it: named sections, each the list of its (option, value) pairs in
  the order \<^verbatim>\<open>items()\<close> gives them, option names as the parser stores them (in
  lower case) and values as the parser returns them.
  \<^verbatim>\<open>config[name]\<close> raises \<^verbatim>\<open>KeyError\<close> for a missing section, \<^verbatim>\<open>section[option]\<close>
  raises \<^verbatim>\<open>KeyError\<close> for a missing option, and \<^verbatim>\<open>section.get(option, fallback)\<close>
  returns the fallback instead. Both look the option up under \<^verbatim>\<open>optionxform(option)\<close>,
  the name in lower case (modelled on ASCII letters).
\<close>

type_synonym section_proxy = "(string \<times> string) list"

type_synonym config = "(string \<times> section_proxy) list"

definition config_section :: "config \<Rightarrow> string \<Rightarrow> error + section_proxy" where
  "config_section cfg name =
     (case map_of cfg name of None \<Rightarrow> Inl KeyError | Some s \<Rightarrow> Inr s)"

definition lower :: "char \<Rightarrow> char" where
  "lower c =
     (case map_of (zip ''ABCDEFGHIJKLMNOPQRSTUVWXYZ'' ''abcdefghijklmnopqrstuvwxyz'') c of
        None \<Rightarrow> c
      | Some l \<Rightarrow> l)"

definition optionxform :: "string \<Rightarrow> string" where
  "optionxform name = map lower name"

definition getitem :: "section_proxy \<Rightarrow> string \<Rightarrow> error + string" where
  "getitem s opt =
     (case map_of s (optionxform opt) of None \<Rightarrow> Inl KeyError | Some v \<Rightarrow> Inr v)"

definition get :: "section_proxy \<Rightarrow> string \<Rightarrow> string \<Rightarrow> string" where
  "get s opt fallback =
     (case map_of s (optionxform opt) of None \<Rightarrow> fallback | Some v \<Rightarrow> v)"

section \<open>Topic naming\<close>

text \<open>
  \<^verbatim>\<open>topic_format.format(attribute=attribute, id=self.mqtt_id)\<close>. The modelled fragment
  of \<^verbatim>\<open>str.format\<close>: literal text, the escapes \<^verbatim>\<open>{{\<close> and \<^verbatim>\<open>}}\<close>, and the
  replacement fields \<^verbatim>\<open>{id}\<close> and \<^verbatim>\<open>{attribute}\<close>. A lone brace is a
  \<^verbatim>\<open>ValueError\<close>; an empty or numeric field name is an \<^verbatim>\<open>IndexError\<close> (there are no
  positional arguments); any other plain name is a \<^verbatim>\<open>KeyError\<close>. A field with a
  conversion, a format specification or an attribute or index access (one of
  \<^verbatim>\<open>! : . [ {\<close> in the field) is \<open>Unmodelled\<close>.
\<close>

datatype piece = Lit char | Id_field | Attribute_field

definition field_piece :: "string \<Rightarrow> error + piece" where
  "field_piece name =
     (if name = ''id'' then Inr Id_field
      else if name = ''attribute'' then Inr Attribute_field
      else if list_ex (\<lambda>c. c \<in> set ''!:.[{'') name then Inl Unmodelled
      else if list_all (\<lambda>c. c \<in> set ''0123456789'') name then Inl IndexError
      else Inl KeyError)"

definition cons_piece :: "piece \<Rightarrow> error + piece list \<Rightarrow> error + piece list" where
  "cons_piece p r = (case r of Inl e \<Rightarrow> Inl e | Inr ps \<Rightarrow> Inr (p # ps))"

fun markup :: "string \<Rightarrow> error + piece list"
  and field :: "string \<Rightarrow> string \<Rightarrow> error + piece list"
where
  "markup [] = Inr []"
| "markup (c # cs) =
     (if c = CHR ''{'' then
        (case cs of
           [] \<Rightarrow> Inl ValueError
         | d # ds \<Rightarrow> if d = CHR ''{'' then cons_piece (Lit c) (markup ds) else field [] cs)
      else if c = CHR ''}'' then
        (case cs of
           [] \<Rightarrow> Inl ValueError
         | d # ds \<Rightarrow> if d = CHR ''}'' then cons_piece (Lit c) (markup ds) else Inl ValueError)
      else cons_piece (Lit c) (markup cs))"
| "field acc [] = Inl ValueError"
| "field acc (c # cs) =
     (if c = CHR ''}'' then
        (case field_piece (rev acc) of
           Inl e \<Rightarrow> Inl e
         | Inr p \<Rightarrow> cons_piece p (markup cs))
      else field (c # acc) cs)"

fun substitute :: "string \<Rightarrow> string \<Rightarrow> piece \<Rightarrow> string" where
  "substitute attribute ident (Lit c) = [c]"
| "substitute attribute ident Id_field = ident"
| "substitute attribute ident Attribute_field = attribute"

definition render :: "string \<Rightarrow> string \<Rightarrow> piece list \<Rightarrow> string" where
  "render attribute ident ps = concat (map (substitute attribute ident) ps)"

definition format :: "string \<Rightarrow> string \<Rightarrow> string \<Rightarrow> error + string" where
  "format template attribute ident =
     (case markup template of
        Inl e \<Rightarrow> Inl e
      | Inr ps \<Rightarrow> Inr (render attribute ident ps))"

text \<open>
  \<^verbatim>\<open>class BaseSensor\<close>: every sensor has an \<^verbatim>\<open>mqtt_id\<close>; the two sensor classes
  extend it.
\<close>

record BaseSensor =
  mqtt_id :: string

definition topic_for_attribute ::
  "config \<Rightarrow> 'a BaseSensor_scheme \<Rightarrow> string \<Rightarrow> error + string" where
  "topic_for_attribute cfg self attribute =
     (case config_section cfg ''mqtt'' of
        Inl e \<Rightarrow> Inl e
      | Inr m \<Rightarrow>
          (case getitem m ''topic_format'' of
             Inl e \<Rightarrow> Inl e
           | Inr template \<Rightarrow> format template attribute (mqtt_id self)))"

section \<open>The collaborators\<close>

text \<open>
  What the script observes of the world outside it. A reading is a value of type \<open>'v\<close>
  (a float in the script); \<^verbatim>\<open>str\<close> and \<^verbatim>\<open>int\<close> on such data are taken from the
  environment.

  A one-wire probe (an object of \<^verbatim>\<open>W1ThermSensor\<close>) has its hardware \<^verbatim>\<open>id\<close>;
  \<open>temperatures p n\<close> is what its \<open>n\<close>-th call of \<^verbatim>\<open>get_temperature()\<close> does: raise or
  return a value.
\<close>

record 'v W1ThermSensor =
  id' :: string
  temperatures :: "nat \<Rightarrow> error + 'v"
  reads :: nat

definition get_temperature :: "'v W1ThermSensor \<Rightarrow> error + ('v \<times> 'v W1ThermSensor)" where
  "get_temperature p =
     (case temperatures p (reads p) of
        Inl e \<Rightarrow> Inl e
      | Inr v \<Rightarrow> Inr (v, p\<lparr>reads := Suc (reads p)\<rparr>))"

text \<open>
  The \<^verbatim>\<open>bme680.BME680\<close> driver object. \<open>data\<close> is its \<^verbatim>\<open>data\<close> attribute.
  \<open>hardware d n\<close> is what the device does at the \<open>n\<close>-th call made to the driver
  (the constructor is call 0): the call raises, or it returns; for
  \<^verbatim>\<open>get_sensor_data()\<close> the outcome carries the returned flag and the contents of
  \<open>data\<close> after the call, for the other calls only raising or returning matters.
\<close>

record 'v FieldData =
  temperature :: 'v
  humidity :: 'v
  pressure :: 'v
  gas_resistance :: 'v
  heat_stable :: bool

datatype 'v outcome = Raises error | Returns bool "'v FieldData"

datatype oversample = OS_8X

datatype filter_size = FILTER_SIZE_3

datatype gas_status = ENABLE_GAS_MEAS

datatype setting =
    Humidity_oversample oversample
  | Pressure_oversample oversample
  | Temperature_oversample oversample
  | Filter filter_size
  | Gas_status gas_status
  | Gas_heater_temperature int
  | Gas_heater_duration int
  | Gas_heater_profile int

record 'v BME680 =
  i2c_addr :: "int option"
  i2c_device :: "nat option"
  settings :: "setting list"
  data :: "'v FieldData"
  calls :: nat
  hardware :: "nat \<Rightarrow> 'v outcome"

record message =
  topic :: string
  payload :: string

text \<open>
  The environment: the host name, the one-wire probes \<^verbatim>\<open>get_available_sensors()\<close>
  lists (\<open>None\<close> when the import of \<^verbatim>\<open>w1thermsensor\<close> failed and \<^verbatim>\<open>W1ThermSensor\<close> is
  \<^verbatim>\<open>None\<close>), what \<^verbatim>\<open>smbus.SMBus(bus_id)\<close> does (a handle or an exception), the device
  behind an address (\<open>None\<close> is the driver's default address) on a bus handle, what
  \<^verbatim>\<open>publish.multiple\<close> does with a batch and a broker (\<open>None\<close>: it returns), and the
  built-ins \<^verbatim>\<open>str(x)\<close> and \<^verbatim>\<open>int(s, base)\<close>.
\<close>

record 'v env =
  gethostname :: string
  available_sensors :: "'v W1ThermSensor list option"
  SMBus :: "nat \<Rightarrow> error + nat"
  device_at :: "int option \<Rightarrow> nat option \<Rightarrow> nat \<Rightarrow> 'v outcome"
  publish_multiple :: "message list \<Rightarrow> string \<Rightarrow> error option"
  str_py :: "'v \<Rightarrow> string"
  int_py :: "nat \<Rightarrow> string \<Rightarrow> error + int"

text \<open>
  What the process does to the world, in order: opening a bus, sleeping, publishing a
  batch to a broker, printing. Every operation returns the effects it performed
  together with its result, also when it raises.
\<close>

datatype effect =
    Open_bus nat
  | Sleep rat
  | Publish "message list" string
  | Print string

definition driver_new :: "'v env \<Rightarrow> int option \<Rightarrow> nat option \<Rightarrow> error + 'v BME680" where
  "driver_new env addr dev =
     (case device_at env addr dev 0 of
        Raises e \<Rightarrow> Inl e
      | Returns new fd \<Rightarrow>
          Inr \<lparr>i2c_addr = addr, i2c_device = dev, settings = [], data = fd, calls = 1,
               hardware = device_at env addr dev\<rparr>)"

definition driver_set :: "setting \<Rightarrow> 'v BME680 \<Rightarrow> error + 'v BME680" where
  "driver_set x d =
     (case hardware d (calls d) of
        Raises e \<Rightarrow> Inl e
      | Returns new fd \<Rightarrow> Inr (d\<lparr>settings := settings d @ [x], calls := Suc (calls d)\<rparr>))"

definition get_sensor_data :: "'v BME680 \<Rightarrow> error + (bool \<times> 'v BME680)" where
  "get_sensor_data d =
     (case hardware d (calls d) of
        Raises e \<Rightarrow> Inl e
      | Returns new fd \<Rightarrow> Inr (new, d\<lparr>data := fd, calls := Suc (calls d)\<rparr>))"

section \<open>The one-wire sensor\<close>

text \<open>
  \<^verbatim>\<open>class W1Sensor(BaseSensor)\<close>. The attribute \<^verbatim>\<open>_sensor\<close> of the two sensor classes is
  the field \<open>sensor_w1\<close> here and \<open>sensor_bme\<close> below, and the \<^verbatim>\<open>id\<close> of a probe is
  \<open>id'\<close>. A generator is modelled by the list of what it yields.
\<close>

record 'v W1Sensor = BaseSensor +
  sensor_w1 :: "'v W1ThermSensor"

definition W1Sensor_topics_and_values ::
  "config \<Rightarrow> 'v W1Sensor \<Rightarrow> effect list \<times> (error + ((string \<times> 'v) list \<times> 'v W1Sensor))" where
  "W1Sensor_topics_and_values cfg self =
     (case topic_for_attribute cfg self ''temperature'' of
        Inl e \<Rightarrow> ([], Inl e)
      | Inr t \<Rightarrow>
          (case get_temperature (sensor_w1 self) of
             Inl e \<Rightarrow> ([], Inl e)
           | Inr (v, p) \<Rightarrow> ([], Inr ([(t, v)], self\<lparr>sensor_w1 := p\<rparr>))))"

text \<open>The \<^verbatim>\<open>for sensor in sensors\<close> loop of the multi-probe branch.\<close>

fun W1Sensor_each ::
  "config \<Rightarrow> string \<Rightarrow> 'v W1ThermSensor list \<Rightarrow> error + 'v W1Sensor list" where
  "W1Sensor_each cfg hostname [] = Inr []"
| "W1Sensor_each cfg hostname (sensor # sensors) =
     (case config_section cfg ''w1sensors'' of
        Inl e \<Rightarrow> Inl e
      | Inr w \<Rightarrow>
          (case W1Sensor_each cfg hostname sensors of
             Inl e \<Rightarrow> Inl e
           | Inr rest \<Rightarrow>
               Inr (\<lparr>mqtt_id = get w (id' sensor) (hostname @ ''_'' @ id' sensor),
                     sensor_w1 = sensor\<rparr> # rest)))"

definition W1Sensor_create_sensors :: "config \<Rightarrow> 'v env \<Rightarrow> error + 'v W1Sensor list" where
  "W1Sensor_create_sensors cfg env =
     (case available_sensors env of
        None \<Rightarrow> Inr []
      | Some sensors \<Rightarrow>
          (case config_section cfg ''general'' of
             Inl e \<Rightarrow> Inl e
           | Inr general \<Rightarrow>
               (let hostname =
                      get general ''hostname'' (takeWhile (\<lambda>c. c \<noteq> CHR ''.'') (gethostname env))
                in case sensors of
                     [sensor] \<Rightarrow>
                       (case config_section cfg ''w1sensors'' of
                          Inl e \<Rightarrow> Inl e
                        | Inr w \<Rightarrow>
                            Inr [\<lparr>mqtt_id = get w (id' sensor) hostname, sensor_w1 = sensor\<rparr>])
                   | _ \<Rightarrow> W1Sensor_each cfg hostname sensors)))"

section \<open>The environmental sensor\<close>

record 'v BME680Sensor = BaseSensor +
  sensor_bme :: "'v BME680"

fun configure :: "setting list \<Rightarrow> 'v BME680 \<Rightarrow> error + 'v BME680" where
  "configure [] d = Inr d"
| "configure (x # xs) d =
     (case driver_set x d of
        Inl e \<Rightarrow> Inl e
      | Inr d' \<Rightarrow> configure xs d')"

text \<open>
  \<^verbatim>\<open>__init__(self, mqtt_id, i2c_addr=None, i2c_device=None)\<close>. \<^verbatim>\<open>if i2c_addr:\<close> is
  false for \<^verbatim>\<open>None\<close> and for the address 0; the driver is then built at its default
  address.
\<close>

definition BME680Sensor_init ::
  "'v env \<Rightarrow> string \<Rightarrow> int option \<Rightarrow> nat option \<Rightarrow> error + 'v BME680Sensor" where
  "BME680Sensor_init env ident addr dev =
     (case driver_new env (if addr \<noteq> None \<and> addr \<noteq> Some 0 then addr else None) dev of
        Inl e \<Rightarrow> Inl e
      | Inr d \<Rightarrow>
          (case configure
                  [Humidity_oversample OS_8X,
                   Pressure_oversample OS_8X,
                   Temperature_oversample OS_8X,
                   Filter FILTER_SIZE_3,
                   Gas_status ENABLE_GAS_MEAS,
                   Gas_heater_temperature 320,
                   Gas_heater_duration 150,
                   Gas_heater_profile 0] d of
             Inl e \<Rightarrow> Inl e
           | Inr d' \<Rightarrow> Inr \<lparr>mqtt_id = ident, sensor_bme = d'\<rparr>))"

text \<open>
  The \<^verbatim>\<open>for ... in range(attempts)\<close> loop of \<^verbatim>\<open>topics_and_values\<close>, with the number of
  attempts left. Each attempt calls \<^verbatim>\<open>get_sensor_data()\<close> and then reads
  \<^verbatim>\<open>data.heat_stable\<close>. The result is \<open>True\<close> after \<^verbatim>\<open>break\<close> and \<open>False\<close> when the
  loop ran out (the \<^verbatim>\<open>else\<close> branch), with the driver as the loop left it.
\<close>

fun attempt_loop :: "nat \<Rightarrow> 'v BME680 \<Rightarrow> effect list \<times> (error + (bool \<times> 'v BME680))" where
  "attempt_loop 0 d = ([], Inr (False, d))"
| "attempt_loop (Suc n) d =
     (case get_sensor_data d of
        Inl e \<Rightarrow> ([], Inl e)
      | Inr (new, d') \<Rightarrow>
          if new \<and> heat_stable (data d') then ([], Inr (True, d'))
          else apfst ((#) (Sleep (1 / 2))) (attempt_loop n d'))"

definition BME680Sensor_topics_and_values ::
  "config \<Rightarrow> 'v BME680Sensor \<Rightarrow>
     effect list \<times> (error + ((string \<times> 'v) list \<times> 'v BME680Sensor))" where
  "BME680Sensor_topics_and_values cfg self =
     (case attempt_loop 60 (sensor_bme self) of
        (tr, Inl e) \<Rightarrow> (tr, Inl e)
      | (tr, Inr (False, d)) \<Rightarrow> (tr, Inr ([], self\<lparr>sensor_bme := d\<rparr>))
      | (tr, Inr (True, d)) \<Rightarrow>
          (tr,
           case topic_for_attribute cfg self ''temperature'' of
             Inl e \<Rightarrow> Inl e
           | Inr t1 \<Rightarrow>
           (case topic_for_attribute cfg self ''humidity'' of
             Inl e \<Rightarrow> Inl e
           | Inr t2 \<Rightarrow>
           (case topic_for_attribute cfg self ''pressure'' of
             Inl e \<Rightarrow> Inl e
           | Inr t3 \<Rightarrow>
           (case topic_for_attribute cfg self ''gas_resistance'' of
             Inl e \<Rightarrow> Inl e
           | Inr t4 \<Rightarrow>
               Inr ([(t1, temperature (data d)),
                     (t2, humidity (data d)),
                     (t3, pressure (data d)),
                     (t4, gas_resistance (data d))],
                    self\<lparr>sensor_bme := d\<rparr>))))))"

text \<open>
  The \<^verbatim>\<open>for bus_id in (0, 1)\<close> loop of \<^verbatim>\<open>create_sensors\<close>, with the bus indices left
  and the current \<^verbatim>\<open>i2c_device\<close>.
\<close>

fun open_buses ::
  "'v env \<Rightarrow> nat list \<Rightarrow> nat option \<Rightarrow> effect list \<times> (error + nat option)" where
  "open_buses env [] i2c_dev = ([], Inr i2c_dev)"
| "open_buses env (bus_id # bus_ids) i2c_dev =
     (case SMBus env bus_id of
        Inr h \<Rightarrow> apfst ((#) (Open_bus bus_id)) (open_buses env bus_ids (Some h))
      | Inl e \<Rightarrow>
          if e = FileNotFoundError
          then apfst ((#) (Open_bus bus_id)) (open_buses env bus_ids i2c_dev)
          else ([Open_bus bus_id], Inl e))"

text \<open>The loop over \<^verbatim>\<open>config['bme680sensors'].items()\<close>.\<close>

fun configured_sensors ::
  "'v env \<Rightarrow> nat option \<Rightarrow> (string \<times> string) list \<Rightarrow> error + 'v BME680Sensor list" where
  "configured_sensors env i2c_dev [] = Inr []"
| "configured_sensors env i2c_dev ((addr, ident) # items) =
     (case int_py env 16 addr of
        Inl e \<Rightarrow> Inl e
      | Inr a \<Rightarrow>
          (case BME680Sensor_init env ident (Some a) i2c_dev of
             Inl e \<Rightarrow> Inl e
           | Inr s \<Rightarrow>
               (case configured_sensors env i2c_dev items of
                  Inl e \<Rightarrow> Inl e
                | Inr sensors \<Rightarrow> Inr (s # sensors))))"

definition BME680Sensor_create_sensors ::
  "config \<Rightarrow> 'v env \<Rightarrow> effect list \<times> (error + 'v BME680Sensor list)" where
  "BME680Sensor_create_sensors cfg env =
     (case open_buses env [0, 1] None of
        (tr, Inl e) \<Rightarrow> (tr, Inl e)
      | (tr, Inr i2c_dev) \<Rightarrow>
          (tr,
           case config_section cfg ''bme680sensors'' of
             Inl e \<Rightarrow> Inl e
           | Inr items \<Rightarrow>
               (case configured_sensors env i2c_dev items of
                  Inl e \<Rightarrow> Inl e
                | Inr [] \<Rightarrow>
                    (case config_section cfg ''general'' of
                       Inl e \<Rightarrow> Inl e
                     | Inr general \<Rightarrow>
                         (case BME680Sensor_init env
                                 (get general ''hostname''
                                    (takeWhile (\<lambda>c. c \<noteq> CHR ''.'') (gethostname env)))
                                 None i2c_dev of
                            Inl e \<Rightarrow> if isinstance_OSError e then Inr [] else Inl e
                          | Inr s \<Rightarrow> Inr [s]))
                | Inr sensors \<Rightarrow> Inr sensors)))"

section \<open>The acquisition loop\<close>

datatype 'v sensor = BME "'v BME680Sensor" | W1 "'v W1Sensor"

fun topics_and_values ::
  "config \<Rightarrow> 'v sensor \<Rightarrow> effect list \<times> (error + ((string \<times> 'v) list \<times> 'v sensor))" where
  "topics_and_values cfg (BME s) =
     (case BME680Sensor_topics_and_values cfg s of
        (tr, Inl e) \<Rightarrow> (tr, Inl e)
      | (tr, Inr (tvs, s')) \<Rightarrow> (tr, Inr (tvs, BME s')))"
| "topics_and_values cfg (W1 s) =
     (case W1Sensor_topics_and_values cfg s of
        (tr, Inl e) \<Rightarrow> (tr, Inl e)
      | (tr, Inr (tvs, s')) \<Rightarrow> (tr, Inr (tvs, W1 s')))"

definition to_message :: "'v env \<Rightarrow> string \<times> 'v \<Rightarrow> message" where
  "to_message env tv = \<lparr>topic = fst tv, payload = str_py env (snd tv)\<rparr>"

text \<open>The \<^verbatim>\<open>for sensor in sensors\<close> loop of a cycle: the messages and the sensors after it.\<close>

fun read_sensors ::
  "config \<Rightarrow> 'v env \<Rightarrow> 'v sensor list \<Rightarrow>
     effect list \<times> (error + (message list \<times> 'v sensor list))" where
  "read_sensors cfg env [] = ([], Inr ([], []))"
| "read_sensors cfg env (s # ss) =
     (case topics_and_values cfg s of
        (tr, Inl e) \<Rightarrow> (tr, Inl e)
      | (tr, Inr (tvs, s')) \<Rightarrow>
          (case read_sensors cfg env ss of
             (tr', Inl e) \<Rightarrow> (tr @ tr', Inl e)
           | (tr', Inr (messages, ss')) \<Rightarrow>
               (tr @ tr', Inr (map (to_message env) tvs @ messages, s' # ss'))))"

text \<open>\<^verbatim>\<open>if messages: publish.multiple(...) else: print(...)\<close>. \<open>None\<close>: nothing raised.\<close>

definition publish_or_print ::
  "config \<Rightarrow> 'v env \<Rightarrow> message list \<Rightarrow> effect list \<times> error option" where
  "publish_or_print cfg env messages =
     (if messages \<noteq> [] then
        (case config_section cfg ''mqtt'' of
           Inl e \<Rightarrow> ([], Some e)
         | Inr m \<Rightarrow>
             (case getitem m ''broker'' of
                Inl e \<Rightarrow> ([], Some e)
              | Inr broker \<Rightarrow> ([Publish messages broker], publish_multiple env messages broker)))
      else ([Print ''No messages to publish, bit weird.''], None))"

text \<open>
  \<^verbatim>\<open>sleep(int(config['general']['delay']))\<close>; \<^verbatim>\<open>sleep\<close> raises \<^verbatim>\<open>ValueError\<close> on a
  negative length.
\<close>

definition sleep_delay :: "config \<Rightarrow> 'v env \<Rightarrow> effect list \<times> error option" where
  "sleep_delay cfg env =
     (case config_section cfg ''general'' of
        Inl e \<Rightarrow> ([], Some e)
      | Inr general \<Rightarrow>
          (case getitem general ''delay'' of
             Inl e \<Rightarrow> ([], Some e)
           | Inr delay \<Rightarrow>
               (case int_py env 10 delay of
                  Inl e \<Rightarrow> ([], Some e)
                | Inr n \<Rightarrow> if n < 0 then ([], Some ValueError) else ([Sleep (of_int n)], None))))"

text \<open>One iteration of \<^verbatim>\<open>while True\<close>: its effects, and the sensors after it or the exception.\<close>

definition poll_cycle ::
  "config \<Rightarrow> 'v env \<Rightarrow> 'v sensor list \<Rightarrow> effect list \<times> (error + 'v sensor list)" where
  "poll_cycle cfg env sensors =
     (case read_sensors cfg env sensors of
        (tr, Inl e) \<Rightarrow> (tr, Inl e)
      | (tr, Inr (messages, sensors')) \<Rightarrow>
          (case publish_or_print cfg env messages of
             (tr', Some e) \<Rightarrow> (tr @ tr', Inl e)
           | (tr', None) \<Rightarrow>
               (case sleep_delay cfg env of
                  (tr'', Some e) \<Rightarrow> (tr @ tr' @ tr'', Inl e)
                | (tr'', None) \<Rightarrow> (tr @ tr' @ tr'', Inr sensors'))))"

text \<open>
  The loop never returns, so it is observed for a number of cycles: \<open>polling n\<close> runs \<open>n\<close>
  iterations and gives the effects so far, and the exception that ended the process or
  the sensors of a process that is still running.
\<close>

fun polling ::
  "nat \<Rightarrow> config \<Rightarrow> 'v env \<Rightarrow> 'v sensor list \<Rightarrow> effect list \<times> (error + 'v sensor list)" where
  "polling 0 cfg env sensors = ([], Inr sensors)"
| "polling (Suc n) cfg env sensors =
     (case poll_cycle cfg env sensors of
        (tr, Inl e) \<Rightarrow> (tr, Inl e)
      | (tr, Inr sensors') \<Rightarrow> apfst ((@) tr) (polling n cfg env sensors'))"

definition main :: "nat \<Rightarrow> config \<Rightarrow> 'v env \<Rightarrow> effect list \<times> (error + 'v sensor list)" where
  "main n cfg env =
     (case BME680Sensor_create_sensors cfg env of
        (tr, Inl e) \<Rightarrow> (tr, Inl e)
      | (tr, Inr bmes) \<Rightarrow>
          (case W1Sensor_create_sensors cfg env of
             Inl e \<Rightarrow> (tr, Inl e)
           | Inr w1s \<Rightarrow>
               (case map BME bmes @ map W1 w1s of
                  [] \<Rightarrow> (tr, Inl (Exception ''No sensors found.''))
                | sensors \<Rightarrow> apfst ((@) tr) (polling n cfg env sensors))))"

section \<open>Vocabulary of the properties\<close>

text \<open>
  An attempt of the stabilisation loop is \<open>stable\<close> when \<^verbatim>\<open>get_sensor_data()\<close> returns
  true and \<^verbatim>\<open>data.heat_stable\<close> is then set, and \<open>unstable\<close> when the call returns
  without both; an attempt whose call raises is neither.
\<close>

fun stable :: "'v outcome \<Rightarrow> bool" where
  "stable (Returns new fd) = (new \<and> heat_stable fd)"
| "stable (Raises e) = False"

fun unstable :: "'v outcome \<Rightarrow> bool" where
  "unstable (Returns new fd) = (\<not> (new \<and> heat_stable fd))"
| "unstable (Raises e) = False"

text \<open>
  \<open>attempt s i\<close> is what the device does at attempt \<open>i\<close> (counted from 0) of the next
  \<^verbatim>\<open>topics_and_values\<close> of the sensor \<open>s\<close>. \<open>waiting\<close> is the time slept in a trace.
\<close>

definition attempt :: "'v BME680Sensor \<Rightarrow> nat \<Rightarrow> 'v outcome" where
  "attempt s i = hardware (sensor_bme s) (calls (sensor_bme s) + i)"

fun duration :: "effect \<Rightarrow> rat" where
  "duration (Sleep t) = t"
| "duration (Open_bus n) = 0"
| "duration (Publish messages broker) = 0"
| "duration (Print text) = 0"

definition waiting :: "effect list \<Rightarrow> rat" where
  "waiting tr = sum_list (map duration tr)"

text \<open>
  \<open>tolerated r\<close>: the bus open \<open>r\<close> succeeded or raised \<^verbatim>\<open>FileNotFoundError\<close>.
  \<open>sensor_mqtt_id\<close> is \<^verbatim>\<open>sensor.mqtt_id\<close> for a sensor of either class. \<open>is_publish\<close>
  tells the calls of the publish collaborator in a trace, and \<open>yielded cfg s\<close> is the list
  of pairs the sensor \<open>s\<close> yields in a cycle (empty when its read raises).
\<close>

fun tolerated :: "error + nat \<Rightarrow> bool" where
  "tolerated (Inr h) = True"
| "tolerated (Inl e) = (e = FileNotFoundError)"

fun sensor_mqtt_id :: "'v sensor \<Rightarrow> string" where
  "sensor_mqtt_id (BME s) = mqtt_id s"
| "sensor_mqtt_id (W1 s) = mqtt_id s"

fun is_publish :: "effect \<Rightarrow> bool" where
  "is_publish (Publish messages broker) = True"
| "is_publish (Open_bus n) = False"
| "is_publish (Sleep t) = False"
| "is_publish (Print text) = False"

definition yielded :: "config \<Rightarrow> 'v sensor \<Rightarrow> (string \<times> 'v) list" where
  "yielded cfg s =
     (case snd (topics_and_values cfg s) of
        Inl e \<Rightarrow> []
      | Inr (tvs, s') \<Rightarrow> tvs)"

text \<open>
  \<open>same_sensor s s'\<close>: the two are sensors of the same class with the same \<^verbatim>\<open>mqtt_id\<close>
  on the same device (the same address on the same bus handle with the same hardware, or
  the same probe); they may differ in what the device has been asked so far.
\<close>

fun same_sensor :: "'v sensor \<Rightarrow> 'v sensor \<Rightarrow> bool" where
  "same_sensor (BME a) (BME b) =
     (mqtt_id a = mqtt_id b
      \<and> i2c_addr (sensor_bme a) = i2c_addr (sensor_bme b)
      \<and> i2c_device (sensor_bme a) = i2c_device (sensor_bme b)
      \<and> hardware (sensor_bme a) = hardware (sensor_bme b))"
| "same_sensor (W1 a) (W1 b) =
     (mqtt_id a = mqtt_id b
      \<and> id' (sensor_w1 a) = id' (sensor_w1 b)
      \<and> temperatures (sensor_w1 a) = temperatures (sensor_w1 b))"
| "same_sensor (BME a) (W1 b) = False"
| "same_sensor (W1 a) (BME b) = False"

section \<open>Example inputs\<close>

definition slash_config :: config where
  "slash_config =
     [(''general'', [(''delay'', ''60'')]),
      (''mqtt'', [(''broker'', ''localhost''), (''topic_format'', ''{id}/{attribute}'')]),
      (''w1sensors'', []),
      (''bme680sensors'', [])]"

text \<open>
  An environmental sensor whose device returns data at every call and reports the
  heater stable from call \<open>k\<close> on; the values of a sample tell which call produced it.
\<close>

definition sample :: "nat \<Rightarrow> bool \<Rightarrow> int FieldData" where
  "sample n st =
     \<lparr>temperature = int n, humidity = 100 + int n, pressure = 200 + int n,
      gas_resistance = 300 + int n, heat_stable = st\<rparr>"

definition warming_sensor :: "nat \<Rightarrow> int BME680Sensor" where
  "warming_sensor k =
     \<lparr>mqtt_id = ''pi1'',
      sensor_bme =
        \<lparr>i2c_addr = None, i2c_device = Some 1, settings = [], data = sample 0 False,
         calls = 0, hardware = (\<lambda>n. Returns True (sample n (k \<le> n)))\<rparr>\<rparr>"

text \<open>
  A host named \<^verbatim>\<open>pi1.local\<close> with given one-wire probes, buses and devices, a broker
  that accepts every batch, \<^verbatim>\<open>str\<close> as the decimal rendering of an integer reading, and
  \<^verbatim>\<open>int\<close> on the strings the examples use.
\<close>

fun decimal :: "nat \<Rightarrow> string" where
  "decimal n =
     (if n < 10 then [''0123456789'' ! n]
      else decimal (n div 10) @ [''0123456789'' ! (n mod 10)])"

declare decimal.simps [simp del]

definition str_int :: "int \<Rightarrow> string" where
  "str_int v = (if v < 0 then ''-'' @ decimal (nat (- v)) else decimal (nat v))"

definition int_known :: "nat \<Rightarrow> string \<Rightarrow> error + int" where
  "int_known base s =
     (case map_of [((16, ''76''), 118), ((16, ''77''), 119), ((10, ''60''), 60)] (base, s) of
        None \<Rightarrow> Inl ValueError
      | Some n \<Rightarrow> Inr n)"

definition host ::
  "int W1ThermSensor list option \<Rightarrow> (nat \<Rightarrow> error + nat) \<Rightarrow>
     (int option \<Rightarrow> nat option \<Rightarrow> nat \<Rightarrow> int outcome) \<Rightarrow> int env" where
  "host probes buses devices =
     \<lparr>gethostname = ''pi1.local'', available_sensors = probes, SMBus = buses,
      device_at = devices, publish_multiple = (\<lambda>messages broker. None),
      str_py = str_int, int_py = int_known\<rparr>"

definition probe :: "string \<Rightarrow> int W1ThermSensor" where
  "probe i = \<lparr>id' = i, temperatures = (\<lambda>n. Inr (20 + int n)), reads = 0\<rparr>"

definition no_bus :: "nat \<Rightarrow> error + nat" where
  "no_bus bus_id = Inl FileNotFoundError"

definition no_device :: "int option \<Rightarrow> nat option \<Rightarrow> nat \<Rightarrow> int outcome" where
  "no_device addr dev n = Raises OSError"

definition garden_config :: config where
  "garden_config =
     [(''general'', [(''delay'', ''60'')]),
      (''mqtt'', [(''broker'', ''localhost''), (''topic_format'', ''{id}/{attribute}'')]),
      (''w1sensors'', [(''28-bb'', ''garden'')]),
      (''bme680sensors'', [])]"

text \<open>
  Buses of which only index 0 opens (handle 10), and of which both open (handles 10 and
  11); a device that answers every call with unstable data; a configuration listing two
  environmental sensors; and one with an empty host name override.
\<close>

definition bus0_only :: "nat \<Rightarrow> error + nat" where
  "bus0_only bus_id = (if bus_id = 0 then Inr 10 else Inl FileNotFoundError)"

definition both_buses :: "nat \<Rightarrow> error + nat" where
  "both_buses bus_id = Inr (10 + bus_id)"

definition cold_device :: "int option \<Rightarrow> nat option \<Rightarrow> nat \<Rightarrow> int outcome" where
  "cold_device addr dev n = Returns True (sample n False)"

definition two_bme_config :: config where
  "two_bme_config =
     [(''general'', [(''delay'', ''60'')]),
      (''mqtt'', [(''broker'', ''localhost''), (''topic_format'', ''{id}/{attribute}'')]),
      (''w1sensors'', []),
      (''bme680sensors'', [(''77'', ''attic''), (''76'', ''cellar'')])]"

definition nameless_config :: config where
  "nameless_config =
     [(''general'', [(''hostname'', ''''), (''delay'', ''60'')]),
      (''mqtt'', [(''broker'', ''localhost''), (''topic_format'', ''{id}/{attribute}'')]),
      (''w1sensors'', []),
      (''bme680sensors'', [])]"

text \<open>A one-wire sensor named \<^verbatim>\<open>garden\<close>, and a device that is stable at every call.\<close>

definition garden_sensor :: "int W1Sensor" where
  "garden_sensor = \<lparr>mqtt_id = ''garden'', sensor_w1 = probe ''28-bb''\<rparr>"

definition warm_device :: "int option \<Rightarrow> nat option \<Rightarrow> nat \<Rightarrow> int outcome" where
  "warm_device addr dev n = Returns True (sample n True)"

text \<open>
  The environmental sensor that \<^verbatim>\<open>__init__\<close> builds on a warm device, when its driver
  has made \<open>c\<close> calls and holds the sample of call \<open>n\<close>.
\<close>

definition warm_sensor ::
  "string \<Rightarrow> int option \<Rightarrow> nat option \<Rightarrow> nat \<Rightarrow> nat \<Rightarrow> int BME680Sensor" where
  "warm_sensor ident addr dev n c =
     \<lparr>mqtt_id = ident,
      sensor_bme =
        \<lparr>i2c_addr = addr, i2c_device = dev,
         settings =
           [Humidity_oversample OS_8X, Pressure_oversample OS_8X,
            Temperature_oversample OS_8X, Filter FILTER_SIZE_3,
            Gas_status ENABLE_GAS_MEAS, Gas_heater_temperature 320,
            Gas_heater_duration 150, Gas_heater_profile 0],
         data = sample n True, calls = c, hardware = warm_device addr dev\<rparr>\<rparr>"

section \<open>Properties of topic naming\<close>

lemma render_Nil: "render a i [] = []"
  by (simp add: render_def)

lemma render_Cons: "render a i (p # ps) = substitute a i p @ render a i ps"
  by (simp add: render_def)

lemma length_render:
  "length (render a i ps) =
     count_list ps Id_field * length i + count_list ps Attribute_field * length a
       + length (filter (\<lambda>p. p \<noteq> Id_field \<and> p \<noteq> Attribute_field) ps)"
proof (induction ps)
  case Nil
  show ?case by (simp add: render_Nil)
next
  case (Cons p ps)
  then show ?case by (cases p) (simp_all add: render_Cons)
qed

text \<open>
  When the two ids have the same length and the two attributes have the same length,
  the fields of the two rendered topics stand at the same offsets.
\<close>

lemma render_aligned:
  "length i1 = length i2 \<Longrightarrow> length a1 = length a2 \<Longrightarrow>
   render a1 i1 ps = render a2 i2 ps \<Longrightarrow>
   (Id_field \<in> set ps \<longrightarrow> i1 = i2) \<and> (Attribute_field \<in> set ps \<longrightarrow> a1 = a2)"
proof (induction ps)
  case Nil
  show ?case by simp
next
  case (Cons p ps)
  then show ?case by (cases p) (auto simp: render_Cons)
qed

lemma render_lengths:
  assumes eq: "render a1 i1 ps = render a2 i2 ps"
    and i: "Id_field \<in> set ps" and a: "Attribute_field \<in> set ps"
    and len: "length i1 = length i2 \<or> length a1 = length a2"
  shows "length i1 = length i2 \<and> length a1 = length a2"
proof -
  have k: "0 < count_list ps Id_field"
    using i count_list_0_iff [of ps Id_field] by auto
  have m: "0 < count_list ps Attribute_field"
    using a count_list_0_iff [of ps Attribute_field] by auto
  have "length (render a1 i1 ps) = length (render a2 i2 ps)"
    using eq by simp
  then have total:
    "count_list ps Id_field * length i1 + count_list ps Attribute_field * length a1
       = count_list ps Id_field * length i2 + count_list ps Attribute_field * length a2"
    by (simp add: length_render)
  from len show ?thesis
  proof
    assume l: "length i1 = length i2"
    with total have
      "count_list ps Attribute_field * length a1 = count_list ps Attribute_field * length a2"
      by simp
    with m l show ?thesis by simp
  next
    assume l: "length a1 = length a2"
    with total have "count_list ps Id_field * length i1 = count_list ps Id_field * length i2"
      by simp
    with k l show ?thesis by simp
  qed
qed

lemma render_injective:
  assumes "render a1 i1 ps = render a2 i2 ps"
    and "Id_field \<in> set ps" and "Attribute_field \<in> set ps"
    and "length i1 = length i2 \<or> length a1 = length a2"
  shows "i1 = i2 \<and> a1 = a2"
  using render_lengths [OF assms] render_aligned [of i1 i2 a1 a2 ps] assms by blast

lemma topic_for_attribute_render:
  "config_section cfg ''mqtt'' = Inr m \<Longrightarrow> getitem m ''topic_format'' = Inr t \<Longrightarrow>
   markup t = Inr ps \<Longrightarrow>
   topic_for_attribute cfg s a = Inr (render a (mqtt_id s) ps)"
  by (simp add: topic_for_attribute_def format_def)

lemma markup_slash:
  "markup ''{id}/{attribute}'' = Inr [Id_field, Lit CHR ''/'', Attribute_field]"
  by (simp add: field_piece_def cons_piece_def)

lemma slash_config_mqtt:
  "config_section slash_config ''mqtt'' =
     Inr [(''broker'', ''localhost''), (''topic_format'', ''{id}/{attribute}'')]"
  by (simp add: slash_config_def config_section_def)

lemma slash_config_topic_format:
  "getitem [(''broker'', ''localhost''), (''topic_format'', ''{id}/{attribute}'')]
     ''topic_format'' = Inr ''{id}/{attribute}''"
  by (simp add: getitem_def optionxform_def lower_def)

lemma slash_config_topic:
  "topic_for_attribute slash_config s a = Inr (mqtt_id s @ ''/'' @ a)"
  using topic_for_attribute_render
    [OF slash_config_mqtt slash_config_topic_format markup_slash, of s a]
  by (simp add: render_def)

text \<open>
  C3, as stated, fails: with the template \<^verbatim>\<open>{id}/{attribute}\<close>, which contains both
  placeholders, the distinct pairs (\<^verbatim>\<open>a/b\<close>, \<^verbatim>\<open>c\<close>) and (\<^verbatim>\<open>a\<close>, \<^verbatim>\<open>b/c\<close>) get the same
  topic \<^verbatim>\<open>a/b/c\<close>.
\<close>

theorem topic_collision:
  "markup ''{id}/{attribute}'' = Inr [Id_field, Lit CHR ''/'', Attribute_field]
   \<and> (''a/b'', ''c'') \<noteq> (''a'', ''b/c'')
   \<and> topic_for_attribute slash_config \<lparr>mqtt_id = ''a/b''\<rparr> ''c'' = Inr ''a/b/c''
   \<and> topic_for_attribute slash_config \<lparr>mqtt_id = ''a''\<rparr> ''b/c'' = Inr ''a/b/c''"
proof (intro conjI)
  show "markup ''{id}/{attribute}'' = Inr [Id_field, Lit CHR ''/'', Attribute_field]"
    by (rule markup_slash)
  show "(''a/b'', ''c'') \<noteq> (''a'', ''b/c'')"
    by simp
  show "topic_for_attribute slash_config \<lparr>mqtt_id = ''a/b''\<rparr> ''c'' = Inr ''a/b/c''"
    by (simp add: slash_config_topic)
  show "topic_for_attribute slash_config \<lparr>mqtt_id = ''a''\<rparr> ''b/c'' = Inr ''a/b/c''"
    by (simp add: slash_config_topic)
qed

text \<open>
  C3, amended: for a template of literal text and plain \<^verbatim>\<open>{id}\<close> and \<^verbatim>\<open>{attribute}\<close>
  fields that contains both placeholders, two distinct (id, attribute) pairs whose ids
  have the same length or whose attributes have the same length (in particular two
  pairs with the same id, or with the same attribute) get distinct topics.
\<close>

theorem topics_distinct:
  assumes "config_section cfg ''mqtt'' = Inr m"
    and "getitem m ''topic_format'' = Inr t"
    and "markup t = Inr ps"
    and "Id_field \<in> set ps" and "Attribute_field \<in> set ps"
    and "(mqtt_id s1, a1) \<noteq> (mqtt_id s2, a2)"
    and "length (mqtt_id s1) = length (mqtt_id s2) \<or> length a1 = length a2"
  shows "topic_for_attribute cfg s1 a1 \<noteq> topic_for_attribute cfg s2 a2"
proof
  assume "topic_for_attribute cfg s1 a1 = topic_for_attribute cfg s2 a2"
  then have "render a1 (mqtt_id s1) ps = render a2 (mqtt_id s2) ps"
    using assms(1-3) by (simp add: topic_for_attribute_render)
  from render_injective [OF this assms(4,5,7)] assms(6) show False by simp
qed

theorem topics_distinct_witness:
  "config_section slash_config ''mqtt'' =
     Inr [(''broker'', ''localhost''), (''topic_format'', ''{id}/{attribute}'')]
   \<and> getitem [(''broker'', ''localhost''), (''topic_format'', ''{id}/{attribute}'')]
        ''topic_format'' = Inr ''{id}/{attribute}''
   \<and> markup ''{id}/{attribute}'' = Inr [Id_field, Lit CHR ''/'', Attribute_field]
   \<and> Id_field \<in> set [Id_field, Lit CHR ''/'', Attribute_field]
   \<and> Attribute_field \<in> set [Id_field, Lit CHR ''/'', Attribute_field]
   \<and> (mqtt_id \<lparr>mqtt_id = ''pi1''\<rparr>, ''temperature'') \<noteq> (mqtt_id \<lparr>mqtt_id = ''pi2''\<rparr>, ''humidity'')
   \<and> length (mqtt_id \<lparr>mqtt_id = ''pi1''\<rparr>) = length (mqtt_id \<lparr>mqtt_id = ''pi2''\<rparr>)
   \<and> topic_for_attribute slash_config \<lparr>mqtt_id = ''pi1''\<rparr> ''temperature''
       \<noteq> topic_for_attribute slash_config \<lparr>mqtt_id = ''pi2''\<rparr> ''humidity''"
proof -
  have i: "Id_field \<in> set [Id_field, Lit CHR ''/'', Attribute_field]" by simp
  have a: "Attribute_field \<in> set [Id_field, Lit CHR ''/'', Attribute_field]" by simp
  have d: "(mqtt_id \<lparr>mqtt_id = ''pi1''\<rparr>, ''temperature'')
      \<noteq> (mqtt_id \<lparr>mqtt_id = ''pi2''\<rparr>, ''humidity'')" by simp
  have l: "length (mqtt_id \<lparr>mqtt_id = ''pi1''\<rparr>) = length (mqtt_id \<lparr>mqtt_id = ''pi2''\<rparr>)"
    by simp
  have l': "length (mqtt_id \<lparr>mqtt_id = ''pi1''\<rparr>) = length (mqtt_id \<lparr>mqtt_id = ''pi2''\<rparr>)
      \<or> length ''temperature'' = length ''humidity''"
    using l by (rule disjI1)
  note c = topics_distinct
    [OF slash_config_mqtt slash_config_topic_format markup_slash i a d l']
  from slash_config_mqtt slash_config_topic_format markup_slash i a d l c
  show ?thesis by (intro conjI)
qed

section \<open>Properties of the stabilisation protocol\<close>

lemma attempt_loop_stable:
  "k < n \<Longrightarrow> \<forall>i<k. unstable (hardware d (calls d + i)) \<Longrightarrow>
   hardware d (calls d + k) = Returns True fd \<Longrightarrow> heat_stable fd \<Longrightarrow>
   attempt_loop n d =
     (replicate k (Sleep (1 / 2)), Inr (True, d\<lparr>data := fd, calls := calls d + k + 1\<rparr>))"
proof (induction n arbitrary: d k)
  case 0
  then show ?case by simp
next
  case (Suc n)
  show ?case
  proof (cases k)
    case 0
    with Suc.prems show ?thesis by (simp add: get_sensor_data_def)
  next
    case (Suc j)
    with Suc.prems have u: "unstable (hardware d (calls d))"
      by (metis add.right_neutral zero_less_Suc)
    then obtain new fd0 where o: "hardware d (calls d) = Returns new fd0"
      and ns: "\<not> (new \<and> heat_stable fd0)"
      by (cases "hardware d (calls d)") auto
    let ?d = "d\<lparr>data := fd0, calls := Suc (calls d)\<rparr>"
    have "attempt_loop n ?d =
        (replicate j (Sleep (1 / 2)), Inr (True, ?d\<lparr>data := fd, calls := calls ?d + j + 1\<rparr>))"
    proof (rule Suc.IH)
      show "j < n" using Suc.prems(1) Suc by simp
      show "\<forall>i<j. unstable (hardware ?d (calls ?d + i))"
        using Suc.prems(2) Suc by auto
      show "hardware ?d (calls ?d + j) = Returns True fd"
        using Suc.prems(3) Suc by simp
      show "heat_stable fd" by (rule Suc.prems(4))
    qed
    with o ns Suc show ?thesis by (auto simp: get_sensor_data_def)
  qed
qed

lemma attempt_loop_unstable:
  "\<forall>i<n. unstable (hardware d (calls d + i)) \<Longrightarrow>
   \<exists>d'. attempt_loop n d = (replicate n (Sleep (1 / 2)), Inr (False, d'))"
proof (induction n arbitrary: d)
  case 0
  then show ?case by simp
next
  case (Suc n)
  then have u: "unstable (hardware d (calls d))"
    by (metis add.right_neutral zero_less_Suc)
  then obtain new fd0 where o: "hardware d (calls d) = Returns new fd0"
    and ns: "\<not> (new \<and> heat_stable fd0)"
    by (cases "hardware d (calls d)") auto
  let ?d = "d\<lparr>data := fd0, calls := Suc (calls d)\<rparr>"
  have "\<forall>i<n. unstable (hardware ?d (calls ?d + i))"
    using Suc.prems by auto
  from Suc.IH [OF this] obtain d' where
    "attempt_loop n ?d = (replicate n (Sleep (1 / 2)), Inr (False, d'))" by blast
  with o ns show ?case by (auto simp: get_sensor_data_def)
qed

lemma attempt_loop_raises:
  "k < n \<Longrightarrow> \<forall>i<k. unstable (hardware d (calls d + i)) \<Longrightarrow>
   hardware d (calls d + k) = Raises e \<Longrightarrow>
   attempt_loop n d = (replicate k (Sleep (1 / 2)), Inl e)"
proof (induction n arbitrary: d k)
  case 0
  then show ?case by simp
next
  case (Suc n)
  show ?case
  proof (cases k)
    case 0
    with Suc.prems show ?thesis by (simp add: get_sensor_data_def)
  next
    case (Suc j)
    with Suc.prems have u: "unstable (hardware d (calls d))"
      by (metis add.right_neutral zero_less_Suc)
    then obtain new fd0 where o: "hardware d (calls d) = Returns new fd0"
      and ns: "\<not> (new \<and> heat_stable fd0)"
      by (cases "hardware d (calls d)") auto
    let ?d = "d\<lparr>data := fd0, calls := Suc (calls d)\<rparr>"
    have "attempt_loop n ?d = (replicate j (Sleep (1 / 2)), Inl e)"
    proof (rule Suc.IH)
      show "j < n" using Suc.prems(1) Suc by simp
      show "\<forall>i<j. unstable (hardware ?d (calls ?d + i))"
        using Suc.prems(2) Suc by auto
      show "hardware ?d (calls ?d + j) = Raises e"
        using Suc.prems(3) Suc by simp
    qed
    with o ns Suc show ?thesis by (auto simp: get_sensor_data_def)
  qed
qed

text \<open>Either every one of the first \<open>n\<close> attempts is unstable, or there is a first one that is not.\<close>

lemma first_settled:
  "(\<forall>i<(n::nat). unstable (f i)) \<or> (\<exists>k<n. (\<forall>i<k. unstable (f i)) \<and> \<not> unstable (f k))"
proof (induction n)
  case 0
  show ?case by simp
next
  case (Suc n)
  then show ?case
  proof
    assume a: "\<forall>i<n. unstable (f i)"
    show ?thesis
    proof (cases "unstable (f n)")
      case True
      with a show ?thesis by (simp add: less_Suc_eq)
    next
      case False
      with a show ?thesis by blast
    qed
  next
    assume "\<exists>k<n. (\<forall>i<k. unstable (f i)) \<and> \<not> unstable (f k)"
    then show ?thesis using less_Suc_eq by blast
  qed
qed

lemma settled_cases:
  "\<not> unstable x \<Longrightarrow> (\<exists>e. x = Raises e) \<or> (\<exists>fd. x = Returns True fd \<and> heat_stable fd)"
  by (cases x) auto

lemma stable_cases: "stable x \<Longrightarrow> \<exists>fd. x = Returns True fd \<and> heat_stable fd"
  by (cases x) auto

lemma unstable_not_stable: "unstable x \<Longrightarrow> \<not> stable x"
  by (cases x) auto

lemma readings_exhausted:
  "attempt_loop 60 (sensor_bme s) = (tr, Inr (False, d)) \<Longrightarrow>
   BME680Sensor_topics_and_values cfg s = (tr, Inr ([], s\<lparr>sensor_bme := d\<rparr>))"
  by (simp add: BME680Sensor_topics_and_values_def)

lemma readings_raised:
  "attempt_loop 60 (sensor_bme s) = (tr, Inl e) \<Longrightarrow>
   BME680Sensor_topics_and_values cfg s = (tr, Inl e)"
  by (simp add: BME680Sensor_topics_and_values_def)

lemma readings_stable:
  "attempt_loop 60 (sensor_bme s) = (tr, Inr (True, d)) \<Longrightarrow>
   topic_for_attribute cfg s ''temperature'' = Inr t1 \<Longrightarrow>
   topic_for_attribute cfg s ''humidity'' = Inr t2 \<Longrightarrow>
   topic_for_attribute cfg s ''pressure'' = Inr t3 \<Longrightarrow>
   topic_for_attribute cfg s ''gas_resistance'' = Inr t4 \<Longrightarrow>
   BME680Sensor_topics_and_values cfg s =
     (tr, Inr ([(t1, temperature (data d)), (t2, humidity (data d)),
                (t3, pressure (data d)), (t4, gas_resistance (data d))],
               s\<lparr>sensor_bme := d\<rparr>))"
  by (simp add: BME680Sensor_topics_and_values_def)

lemma readings_stable_nonempty:
  "attempt_loop 60 (sensor_bme s) = (tr, Inr (True, d)) \<Longrightarrow>
   BME680Sensor_topics_and_values cfg s = (tr', Inr (rs, s')) \<Longrightarrow> rs \<noteq> []"
  by (auto simp: BME680Sensor_topics_and_values_def split: sum.splits)

lemma readings_trace:
  "fst (BME680Sensor_topics_and_values cfg s) = fst (attempt_loop 60 (sensor_bme s))"
  by (auto simp: BME680Sensor_topics_and_values_def split: prod.splits sum.splits bool.splits)

lemma warming_attempt: "attempt (warming_sensor k) i = Returns True (sample i (k \<le> i))"
  by (simp add: attempt_def warming_sensor_def)

lemma warming_unstable: "\<forall>i<k. unstable (attempt (warming_sensor k) i)"
  by (simp add: warming_attempt sample_def)

lemma warming_stable: "heat_stable (sample k (k \<le> k))"
  by (simp add: sample_def)

text \<open>
  C1. For the environmental sensor: when each of the 60 attempts returns without
  reporting both data present and the stable flag, \<^verbatim>\<open>topics_and_values\<close> returns the empty
  list; when attempt \<open>k\<close> (counted from 0, so any of the 60 attempts, the last included) is
  the first to report both, it returns exactly the four pairs for temperature, humidity,
  pressure and gas_resistance, in that order, with the values of the data of that
  attempt's acquisition; and whenever it returns the empty list, none of the 60 attempts
  reported both.
\<close>

theorem readings_stabilised:
  "((\<forall>i<60. unstable (attempt s i)) \<longrightarrow>
      (\<exists>s'. snd (BME680Sensor_topics_and_values cfg s) = Inr ([], s')))
   \<and> (\<forall>k fd t1 t2 t3 t4.
        k < 60 \<and> (\<forall>i<k. unstable (attempt s i))
        \<and> attempt s k = Returns True fd \<and> heat_stable fd
        \<and> topic_for_attribute cfg s ''temperature'' = Inr t1
        \<and> topic_for_attribute cfg s ''humidity'' = Inr t2
        \<and> topic_for_attribute cfg s ''pressure'' = Inr t3
        \<and> topic_for_attribute cfg s ''gas_resistance'' = Inr t4 \<longrightarrow>
        snd (BME680Sensor_topics_and_values cfg s) =
          Inr ([(t1, temperature fd), (t2, humidity fd),
                (t3, pressure fd), (t4, gas_resistance fd)],
               s\<lparr>sensor_bme :=
                   (sensor_bme s)\<lparr>data := fd, calls := calls (sensor_bme s) + k + 1\<rparr>\<rparr>))
   \<and> (\<forall>tr s'. BME680Sensor_topics_and_values cfg s = (tr, Inr ([], s')) \<longrightarrow>
        (\<forall>i<60. \<not> stable (attempt s i)))"
proof (intro conjI allI impI)
  assume "\<forall>i<60. unstable (attempt s i)"
  then have "\<forall>i<60. unstable (hardware (sensor_bme s) (calls (sensor_bme s) + i))"
    by (simp add: attempt_def)
  from attempt_loop_unstable [OF this] obtain d where
    "attempt_loop 60 (sensor_bme s) = (replicate 60 (Sleep (1 / 2)), Inr (False, d))"
    by blast
  from readings_exhausted [OF this, of cfg]
  show "\<exists>s'. snd (BME680Sensor_topics_and_values cfg s) = Inr ([], s')"
    by simp
next
  fix k fd t1 t2 t3 t4
  assume h: "k < 60 \<and> (\<forall>i<k. unstable (attempt s i))
        \<and> attempt s k = Returns True fd \<and> heat_stable fd
        \<and> topic_for_attribute cfg s ''temperature'' = Inr t1
        \<and> topic_for_attribute cfg s ''humidity'' = Inr t2
        \<and> topic_for_attribute cfg s ''pressure'' = Inr t3
        \<and> topic_for_attribute cfg s ''gas_resistance'' = Inr t4"
  let ?d = "sensor_bme s"
  have "attempt_loop 60 ?d =
      (replicate k (Sleep (1 / 2)), Inr (True, ?d\<lparr>data := fd, calls := calls ?d + k + 1\<rparr>))"
  proof (rule attempt_loop_stable)
    show "k < 60" using h by simp
    show "\<forall>i<k. unstable (hardware ?d (calls ?d + i))" using h by (simp add: attempt_def)
    show "hardware ?d (calls ?d + k) = Returns True fd" using h by (simp add: attempt_def)
    show "heat_stable fd" using h by simp
  qed
  from readings_stable [OF this, of cfg t1 t2 t3 t4] h
  show "snd (BME680Sensor_topics_and_values cfg s) =
          Inr ([(t1, temperature fd), (t2, humidity fd),
                (t3, pressure fd), (t4, gas_resistance fd)],
               s\<lparr>sensor_bme := ?d\<lparr>data := fd, calls := calls ?d + k + 1\<rparr>\<rparr>)"
    by simp
next
  fix tr s' i
  assume r: "BME680Sensor_topics_and_values cfg s = (tr, Inr ([], s'))" and i: "i < (60::nat)"
  let ?d = "sensor_bme s"
  let ?f = "\<lambda>i. hardware ?d (calls ?d + i)"
  from first_settled [of 60 ?f] show "\<not> stable (attempt s i)"
  proof
    assume "\<forall>i<60. unstable (?f i)"
    with i show ?thesis by (simp add: attempt_def unstable_not_stable)
  next
    assume "\<exists>k<60. (\<forall>i<k. unstable (?f i)) \<and> \<not> unstable (?f k)"
    then obtain k where k: "k < 60" "\<forall>i<k. unstable (?f i)" "\<not> unstable (?f k)"
      by blast
    from settled_cases [OF k(3)] have False
    proof
      assume "\<exists>e. ?f k = Raises e"
      then obtain e where "?f k = Raises e" by blast
      from attempt_loop_raises [OF k(1) k(2) this] readings_raised [of s _ e cfg] r
      show False by simp
    next
      assume "\<exists>fd. ?f k = Returns True fd \<and> heat_stable fd"
      then obtain fd where "?f k = Returns True fd" "heat_stable fd" by blast
      from readings_stable_nonempty [OF attempt_loop_stable [OF k(1) k(2) this] r]
      show False by simp
    qed
    then show ?thesis ..
  qed
qed

theorem readings_stabilised_witness:
  "list_all (\<lambda>i. unstable (attempt (warming_sensor 59) i)) [0..<59]
   \<and> attempt (warming_sensor 59) 59 = Returns True (sample 59 True)
   \<and> heat_stable (sample 59 True)
   \<and> topic_for_attribute slash_config (warming_sensor 59) ''temperature''
        = Inr ''pi1/temperature''
   \<and> topic_for_attribute slash_config (warming_sensor 59) ''humidity''
        = Inr ''pi1/humidity''
   \<and> topic_for_attribute slash_config (warming_sensor 59) ''pressure''
        = Inr ''pi1/pressure''
   \<and> topic_for_attribute slash_config (warming_sensor 59) ''gas_resistance''
        = Inr ''pi1/gas_resistance''
   \<and> (\<exists>s'. snd (BME680Sensor_topics_and_values slash_config (warming_sensor 59)) =
          Inr ([(''pi1/temperature'', 59), (''pi1/humidity'', 159),
                (''pi1/pressure'', 259), (''pi1/gas_resistance'', 359)], s'))
   \<and> list_all (\<lambda>i. unstable (attempt (warming_sensor 60) i)) [0..<60]
   \<and> (\<exists>s'. snd (BME680Sensor_topics_and_values slash_config (warming_sensor 60)) = Inr ([], s'))"
proof -
  have u: "\<forall>i<59. unstable (attempt (warming_sensor 59) i)"
    by (rule warming_unstable)
  have a: "attempt (warming_sensor 59) 59 = Returns True (sample 59 True)"
    by (simp add: warming_attempt)
  have st: "heat_stable (sample 59 True)"
    by (simp add: sample_def)
  have t1: "topic_for_attribute slash_config (warming_sensor 59) ''temperature''
      = Inr ''pi1/temperature''"
    by (simp add: slash_config_topic warming_sensor_def)
  have t2: "topic_for_attribute slash_config (warming_sensor 59) ''humidity''
      = Inr ''pi1/humidity''"
    by (simp add: slash_config_topic warming_sensor_def)
  have t3: "topic_for_attribute slash_config (warming_sensor 59) ''pressure''
      = Inr ''pi1/pressure''"
    by (simp add: slash_config_topic warming_sensor_def)
  have t4: "topic_for_attribute slash_config (warming_sensor 59) ''gas_resistance''
      = Inr ''pi1/gas_resistance''"
    by (simp add: slash_config_topic warming_sensor_def)
  have "(59::nat) < 60" by simp
  with u a st t1 t2 t3 t4 have h:
    "(59::nat) < 60 \<and> (\<forall>i<59. unstable (attempt (warming_sensor 59) i))
     \<and> attempt (warming_sensor 59) 59 = Returns True (sample 59 True)
     \<and> heat_stable (sample 59 True)
     \<and> topic_for_attribute slash_config (warming_sensor 59) ''temperature''
          = Inr ''pi1/temperature''
     \<and> topic_for_attribute slash_config (warming_sensor 59) ''humidity''
          = Inr ''pi1/humidity''
     \<and> topic_for_attribute slash_config (warming_sensor 59) ''pressure''
          = Inr ''pi1/pressure''
     \<and> topic_for_attribute slash_config (warming_sensor 59) ''gas_resistance''
          = Inr ''pi1/gas_resistance''"
    by (intro conjI)
  note found = readings_stabilised
    [of "warming_sensor 59" slash_config, THEN conjunct2, THEN conjunct1, rule_format, OF h]
  have r: "\<exists>s'. snd (BME680Sensor_topics_and_values slash_config (warming_sensor 59)) =
          Inr ([(''pi1/temperature'', 59), (''pi1/humidity'', 159),
                (''pi1/pressure'', 259), (''pi1/gas_resistance'', 359)], s')"
    by (simp add: found sample_def)
  have u': "\<forall>i<60. unstable (attempt (warming_sensor 60) i)"
    by (rule warming_unstable)
  note none = readings_stabilised
    [of "warming_sensor 60" slash_config, THEN conjunct1, THEN mp, OF u']
  have l: "list_all (\<lambda>i. unstable (attempt (warming_sensor 59) i)) [0..<59]"
    using u by (simp add: list_all_iff)
  have l': "list_all (\<lambda>i. unstable (attempt (warming_sensor 60) i)) [0..<60]"
    using u' by (simp add: list_all_iff)
  from l a st t1 t2 t3 t4 r l' none show ?thesis by (intro conjI)
qed

section \<open>Properties of the waits\<close>

text \<open>
  C8, as stated, fails: a run in which all 60 attempts fail sleeps 60 times, not 59; a
  wait also follows the last attempt.
\<close>

theorem sixty_waits:
  "list_all (\<lambda>i. unstable (attempt (warming_sensor 60) i)) [0..<60]
   \<and> fst (BME680Sensor_topics_and_values slash_config (warming_sensor 60))
       = replicate 60 (Sleep (1 / 2))
   \<and> length (fst (BME680Sensor_topics_and_values slash_config (warming_sensor 60))) \<noteq> 59"
proof -
  have u: "\<forall>i<60. unstable (attempt (warming_sensor 60) i)"
    by (rule warming_unstable)
  then have "\<forall>i<60. unstable (hardware (sensor_bme (warming_sensor 60))
      (calls (sensor_bme (warming_sensor 60)) + i))"
    by (simp add: attempt_def)
  from attempt_loop_unstable [OF this] obtain d where
    "attempt_loop 60 (sensor_bme (warming_sensor 60)) =
       (replicate 60 (Sleep (1 / 2)), Inr (False, d))"
    by blast
  then have tr: "fst (BME680Sensor_topics_and_values slash_config (warming_sensor 60))
      = replicate 60 (Sleep (1 / 2))"
    by (simp add: readings_trace)
  have l: "list_all (\<lambda>i. unstable (attempt (warming_sensor 60) i)) [0..<60]"
    using u by (simp add: list_all_iff)
  have "length (fst (BME680Sensor_topics_and_values slash_config (warming_sensor 60))) \<noteq> 59"
    by (simp add: tr)
  with l tr show ?thesis by (intro conjI)
qed

lemma waiting_replicate: "waiting (replicate n (Sleep t)) = of_nat n * t"
  by (induction n) (simp_all add: waiting_def algebra_simps)

text \<open>
  C8, amended: a wait of 0.5 time-units follows every attempt that does not report data
  present and stable, the last one included, and there is no other wait. A run that
  succeeds at attempt \<open>k\<close> counted from 0 (the \<open>k + 1\<close>-th attempt) performs exactly \<open>k\<close>
  waits; a run in which all 60 attempts fail performs exactly 60 waits, 30 time-units
  in all.
\<close>

theorem waits_follow_failed_attempts:
  "((\<forall>i<60. unstable (attempt s i)) \<longrightarrow>
      fst (BME680Sensor_topics_and_values cfg s) = replicate 60 (Sleep (1 / 2))
      \<and> waiting (fst (BME680Sensor_topics_and_values cfg s)) = 30)
   \<and> (\<forall>k. k < 60 \<and> (\<forall>i<k. unstable (attempt s i)) \<and> stable (attempt s k) \<longrightarrow>
        fst (BME680Sensor_topics_and_values cfg s) = replicate k (Sleep (1 / 2)))"
proof (intro conjI allI impI)
  assume "\<forall>i<60. unstable (attempt s i)"
  then have "\<forall>i<60. unstable (hardware (sensor_bme s) (calls (sensor_bme s) + i))"
    by (simp add: attempt_def)
  from attempt_loop_unstable [OF this] obtain d where
    "attempt_loop 60 (sensor_bme s) = (replicate 60 (Sleep (1 / 2)), Inr (False, d))"
    by blast
  then show tr: "fst (BME680Sensor_topics_and_values cfg s) = replicate 60 (Sleep (1 / 2))"
    by (simp add: readings_trace)
  show "waiting (fst (BME680Sensor_topics_and_values cfg s)) = 30"
    by (simp add: tr waiting_replicate)
next
  fix k
  assume h: "k < 60 \<and> (\<forall>i<k. unstable (attempt s i)) \<and> stable (attempt s k)"
  let ?d = "sensor_bme s"
  from h stable_cases [of "attempt s k"] obtain fd where
    fd: "attempt s k = Returns True fd" "heat_stable fd" by blast
  have "attempt_loop 60 ?d =
      (replicate k (Sleep (1 / 2)), Inr (True, ?d\<lparr>data := fd, calls := calls ?d + k + 1\<rparr>))"
  proof (rule attempt_loop_stable)
    show "k < 60" using h by simp
    show "\<forall>i<k. unstable (hardware ?d (calls ?d + i))" using h by (simp add: attempt_def)
    show "hardware ?d (calls ?d + k) = Returns True fd" using fd by (simp add: attempt_def)
    show "heat_stable fd" by (rule fd(2))
  qed
  then show "fst (BME680Sensor_topics_and_values cfg s) = replicate k (Sleep (1 / 2))"
    by (simp add: readings_trace)
qed

theorem waits_follow_failed_attempts_witness:
  "list_all (\<lambda>i. unstable (attempt (warming_sensor 60) i)) [0..<60]
   \<and> waiting (fst (BME680Sensor_topics_and_values slash_config (warming_sensor 60))) = 30
   \<and> list_all (\<lambda>i. unstable (attempt (warming_sensor 59) i)) [0..<59]
   \<and> stable (attempt (warming_sensor 59) 59)
   \<and> fst (BME680Sensor_topics_and_values slash_config (warming_sensor 59))
       = replicate 59 (Sleep (1 / 2))"
proof -
  have u: "\<forall>i<59. unstable (attempt (warming_sensor 59) i)"
    by (rule warming_unstable)
  have st: "stable (attempt (warming_sensor 59) 59)"
    by (simp add: warming_attempt sample_def)
  have "(59::nat) < 60" by simp
  with u st have h: "(59::nat) < 60 \<and> (\<forall>i<59. unstable (attempt (warming_sensor 59) i))
      \<and> stable (attempt (warming_sensor 59) 59)"
    by (intro conjI)
  note found = waits_follow_failed_attempts
    [of "warming_sensor 59" slash_config, THEN conjunct2, rule_format, OF h]
  have u': "\<forall>i<60. unstable (attempt (warming_sensor 60) i)"
    by (rule warming_unstable)
  note none = waits_follow_failed_attempts
    [of "warming_sensor 60" slash_config, THEN conjunct1, THEN mp, OF u', THEN conjunct2]
  have l: "list_all (\<lambda>i. unstable (attempt (warming_sensor 59) i)) [0..<59]"
    using u by (simp add: list_all_iff)
  have l': "list_all (\<lambda>i. unstable (attempt (warming_sensor 60) i)) [0..<60]"
    using u' by (simp add: list_all_iff)
  from l' none l st found show ?thesis by (intro conjI)
qed

section \<open>Properties of discovery\<close>


lemma optionxform_hostname: "optionxform ''hostname'' = ''hostname''"
  by (simp add: optionxform_def lower_def)





lemma driver_new_fields:
  "driver_new env addr dev = Inr d \<Longrightarrow> i2c_addr d = addr \<and> i2c_device d = dev"
  by (auto simp: driver_new_def split: outcome.splits)

lemma driver_set_fields:
  "driver_set x d = Inr d' \<Longrightarrow> i2c_addr d' = i2c_addr d \<and> i2c_device d' = i2c_device d"
  by (auto simp: driver_set_def split: outcome.splits)

lemma configure_fields:
  "configure xs d = Inr d' \<Longrightarrow> i2c_addr d' = i2c_addr d \<and> i2c_device d' = i2c_device d"
proof (induction xs arbitrary: d)
  case Nil
  then show ?case by simp
next
  case (Cons x xs)
  then show ?case
    by (cases "driver_set x d") (auto dest: driver_set_fields)
qed

lemma BME680Sensor_init_fields:
  assumes "BME680Sensor_init env ident addr dev = Inr s"
  shows "mqtt_id s = ident"
    and "i2c_device (sensor_bme s) = dev"
    and "i2c_addr (sensor_bme s) = (if addr \<noteq> None \<and> addr \<noteq> Some 0 then addr else None)"
proof -
  let ?addr = "if addr \<noteq> None \<and> addr \<noteq> Some 0 then addr else None"
  from assms obtain d xs d' where
    new: "driver_new env ?addr dev = Inr d"
    and conf: "configure xs d = Inr d'"
    and s: "s = \<lparr>mqtt_id = ident, sensor_bme = d'\<rparr>"
    by (auto simp: BME680Sensor_init_def simp del: configure.simps split: sum.splits)
  show "mqtt_id s = ident"
    using s by simp
  show "i2c_device (sensor_bme s) = dev"
    using s driver_new_fields [OF new] configure_fields [OF conf] by simp
  show "i2c_addr (sensor_bme s) = ?addr"
    using s driver_new_fields [OF new] configure_fields [OF conf] by simp
qed

lemma configured_sensors_fields:
  "configured_sensors env dev items = Inr sensors \<Longrightarrow>
   map mqtt_id sensors = map snd items
   \<and> (\<forall>s\<in>set sensors. i2c_device (sensor_bme s) = dev)"
proof (induction items arbitrary: sensors)
  case Nil
  then show ?case by simp
next
  case (Cons item items)
  obtain addr ident where item: "item = (addr, ident)" by (cases item)
  from Cons.prems item obtain a s rest where
    "int_py env 16 addr = Inr a"
    and s: "BME680Sensor_init env ident (Some a) dev = Inr s"
    and rest: "configured_sensors env dev items = Inr rest"
    and sensors: "sensors = s # rest"
    by (auto split: sum.splits)
  from Cons.IH [OF rest] BME680Sensor_init_fields(1,2) [OF s] sensors item
  show ?case by simp
qed

lemma configured_sensors_length:
  "configured_sensors env dev items = Inr sensors \<Longrightarrow> length sensors = length items"
  using configured_sensors_fields [of env dev items sensors] by (metis length_map)


lemma open_buses_two:
  "tolerated (SMBus env 0) \<Longrightarrow> tolerated (SMBus env 1) \<Longrightarrow>
   open_buses env [0, 1] None =
     ([Open_bus 0, Open_bus 1],
      Inr (case SMBus env 1 of
             Inr h1 \<Rightarrow> Some h1
           | Inl e1 \<Rightarrow> (case SMBus env 0 of Inr h0 \<Rightarrow> Some h0 | Inl e0 \<Rightarrow> None)))"
  by (cases "SMBus env 0"; cases "SMBus env 1") simp_all

lemma open_buses_trace: "set (fst (open_buses env bus_ids dev)) \<subseteq> Open_bus ` set bus_ids"
proof (induction bus_ids arbitrary: dev)
  case Nil
  show ?case by simp
next
  case (Cons bus_id bus_ids)
  show ?case
  proof (cases "SMBus env bus_id")
    case (Inl e)
    with Cons [of dev] show ?thesis by auto
  next
    case (Inr h)
    with Cons [of "Some h"] show ?thesis by auto
  qed
qed

lemma create_sensors_trace:
  "fst (BME680Sensor_create_sensors cfg env) = fst (open_buses env [0, 1] None)"
  by (cases "open_buses env [0, 1] None")
    (auto simp: BME680Sensor_create_sensors_def split: sum.splits)

lemma create_sensors_opened:
  "open_buses env [0, 1] None = (tr, Inr dev) \<Longrightarrow>
   config_section cfg ''bme680sensors'' = Inr items \<Longrightarrow>
   snd (BME680Sensor_create_sensors cfg env) =
     (case configured_sensors env dev items of
        Inl e \<Rightarrow> Inl e
      | Inr [] \<Rightarrow>
          (case config_section cfg ''general'' of
             Inl e \<Rightarrow> Inl e
           | Inr general \<Rightarrow>
               (case BME680Sensor_init env
                       (get general ''hostname''
                          (takeWhile (\<lambda>c. c \<noteq> CHR ''.'') (gethostname env)))
                       None dev of
                  Inl e \<Rightarrow> if isinstance_OSError e then Inr [] else Inl e
                | Inr s \<Rightarrow> Inr [s]))
      | Inr sensors \<Rightarrow> Inr sensors)"
  by (simp add: BME680Sensor_create_sensors_def)

lemma create_sensors_no_section:
  "open_buses env [0, 1] None = (tr, Inr dev) \<Longrightarrow>
   config_section cfg ''bme680sensors'' = Inl e \<Longrightarrow>
   snd (BME680Sensor_create_sensors cfg env) = Inl e"
  by (simp add: BME680Sensor_create_sensors_def)

lemma slash_config_bme680sensors: "config_section slash_config ''bme680sensors'' = Inr []"
  by (simp add: slash_config_def config_section_def)

lemma slash_config_general: "config_section slash_config ''general'' = Inr [(''delay'', ''60'')]"
  by (simp add: slash_config_def config_section_def)

lemma two_bme_config_bme680sensors:
  "config_section two_bme_config ''bme680sensors'' = Inr [(''77'', ''attic''), (''76'', ''cellar'')]"
  by (simp add: two_bme_config_def config_section_def)

lemma host_hostname:
  "get [(''delay'', ''60'')] ''hostname''
     (takeWhile (\<lambda>c. c \<noteq> CHR ''.'') (gethostname (host probes buses devices))) = ''pi1''"
  by (simp add: get_def host_def optionxform_hostname)

lemma no_bus_opened:
  "open_buses (host probes no_bus devices) [0, 1] None = ([Open_bus 0, Open_bus 1], Inr None)"
  by (simp add: host_def no_bus_def)

lemma bus0_only_opened:
  "open_buses (host probes bus0_only devices) [0, 1] None
     = ([Open_bus 0, Open_bus 1], Inr (Some 10))"
  by (simp add: host_def bus0_only_def)

lemma no_device_init:
  "BME680Sensor_init (host probes buses no_device) ident addr dev = Inl OSError"
  by (simp add: BME680Sensor_init_def driver_new_def host_def no_device_def)

lemma cold_device_init:
  "BME680Sensor_init (host probes buses cold_device) ident addr dev =
     Inr \<lparr>mqtt_id = ident,
          sensor_bme =
            \<lparr>i2c_addr = (if addr \<noteq> None \<and> addr \<noteq> Some 0 then addr else None),
             i2c_device = dev,
             settings =
               [Humidity_oversample OS_8X, Pressure_oversample OS_8X,
                Temperature_oversample OS_8X, Filter FILTER_SIZE_3,
                Gas_status ENABLE_GAS_MEAS, Gas_heater_temperature 320,
                Gas_heater_duration 150, Gas_heater_profile 0],
             data = sample 0 False, calls = 9, hardware = cold_device
               (if addr \<noteq> None \<and> addr \<noteq> Some 0 then addr else None) dev\<rparr>\<rparr>"
  by (simp add: BME680Sensor_init_def driver_new_def driver_set_def host_def cold_device_def)



text \<open>
  C4, as stated, fails: when index 0 opens and index 1 is not found, the handle of index 0
  (here 10) is kept and given to the sensor; it is not discarded.
\<close>

theorem bus0_handle_kept:
  "SMBus (host None bus0_only cold_device) 0 = Inr 10
   \<and> SMBus (host None bus0_only cold_device) 1 = Inl FileNotFoundError
   \<and> open_buses (host None bus0_only cold_device) [0, 1] None
       = ([Open_bus 0, Open_bus 1], Inr (Some 10))
   \<and> map_sum id (map (\<lambda>s. i2c_device (sensor_bme s)))
        (snd (BME680Sensor_create_sensors slash_config (host None bus0_only cold_device)))
       = Inr [Some 10]"
proof (intro conjI)
  let ?env = "host None bus0_only cold_device :: int env"
  show "SMBus ?env 0 = Inr 10"
    by (simp add: host_def bus0_only_def)
  show "SMBus ?env 1 = Inl FileNotFoundError"
    by (simp add: host_def bus0_only_def)
  show o: "open_buses ?env [0, 1] None = ([Open_bus 0, Open_bus 1], Inr (Some 10))"
    by (rule bus0_only_opened)
  show "map_sum id (map (\<lambda>s. i2c_device (sensor_bme s)))
        (snd (BME680Sensor_create_sensors slash_config ?env)) = Inr [Some 10]"
    by (simp add: create_sensors_opened [OF o slash_config_bme680sensors]
        slash_config_general cold_device_init)
qed

text \<open>
  C4, amended: discovery opens the bus indices 0 and 1, in that order, going on after a
  \<^verbatim>\<open>FileNotFoundError\<close> on either; the handle given to every constructed sensor is the
  one of the open call that succeeded last: that of index 1 when index 1 opens (a handle
  of index 0 is then dropped), that of index 0 when only index 0 opens, and none when
  neither opens.
\<close>

theorem last_opened_bus_shared:
  assumes "tolerated (SMBus env 0)" and "tolerated (SMBus env 1)"
  shows "fst (BME680Sensor_create_sensors cfg env) = [Open_bus 0, Open_bus 1]
     \<and> (\<forall>sensors. snd (BME680Sensor_create_sensors cfg env) = Inr sensors \<longrightarrow>
          (\<forall>s\<in>set sensors.
             i2c_device (sensor_bme s) =
               (case SMBus env 1 of
                  Inr h1 \<Rightarrow> Some h1
                | Inl e1 \<Rightarrow> (case SMBus env 0 of Inr h0 \<Rightarrow> Some h0 | Inl e0 \<Rightarrow> None))))"
proof (intro conjI allI impI ballI)
  let ?dev = "case SMBus env 1 of
                  Inr h1 \<Rightarrow> Some h1
                | Inl e1 \<Rightarrow> (case SMBus env 0 of Inr h0 \<Rightarrow> Some h0 | Inl e0 \<Rightarrow> None)"
  note o = open_buses_two [OF assms]
  show "fst (BME680Sensor_create_sensors cfg env) = [Open_bus 0, Open_bus 1]"
    by (simp only: create_sensors_trace o fst_conv)
  fix sensors s
  assume r: "snd (BME680Sensor_create_sensors cfg env) = Inr sensors" and s: "s \<in> set sensors"
  from r obtain items where items: "config_section cfg ''bme680sensors'' = Inr items"
    using create_sensors_no_section [OF o, of cfg]
    by (cases "config_section cfg ''bme680sensors''") auto
  from r obtain listed where listed: "configured_sensors env ?dev items = Inr listed"
    by (cases "configured_sensors env ?dev items")
      (auto simp: create_sensors_opened [OF o items])
  show "i2c_device (sensor_bme s) = ?dev"
  proof (cases listed)
    case Nil
    with r listed s obtain general where
      "BME680Sensor_init env
         (get general ''hostname'' (takeWhile (\<lambda>c. c \<noteq> CHR ''.'') (gethostname env)))
         None ?dev = Inr s"
      by (auto simp: create_sensors_opened [OF o items] split: sum.splits if_splits)
    from BME680Sensor_init_fields(2) [OF this] show ?thesis .
  next
    case (Cons x xs)
    with r listed have "sensors = listed"
      by (simp add: create_sensors_opened [OF o items])
    with configured_sensors_fields [OF listed] s show ?thesis by simp
  qed
qed

theorem last_opened_bus_shared_witness:
  "tolerated (SMBus (host None both_buses cold_device) 0)
   \<and> tolerated (SMBus (host None both_buses cold_device) 1)
   \<and> fst (BME680Sensor_create_sensors two_bme_config (host None both_buses cold_device))
       = [Open_bus 0, Open_bus 1]
   \<and> map_sum id (map (\<lambda>s. i2c_device (sensor_bme s)))
        (snd (BME680Sensor_create_sensors two_bme_config (host None both_buses cold_device)))
       = Inr [Some 11, Some 11]"
proof -
  let ?env = "host None both_buses cold_device :: int env"
  have t0: "tolerated (SMBus ?env 0)"
    by (simp add: host_def both_buses_def)
  have t1: "tolerated (SMBus ?env 1)"
    by (simp add: host_def both_buses_def)
  note shared = last_opened_bus_shared [OF t0 t1, of two_bme_config]
  have o: "open_buses ?env [0, 1] None = ([Open_bus 0, Open_bus 1], Inr (Some 11))"
    by (simp add: host_def both_buses_def)
  have i: "int_py ?env 16 ''77'' = Inr 119" "int_py ?env 16 ''76'' = Inr 118"
    by (simp_all add: host_def int_known_def)
  have "\<exists>s1 s2. snd (BME680Sensor_create_sensors two_bme_config ?env) = Inr [s1, s2]"
    by (simp add: create_sensors_opened [OF o two_bme_config_bme680sensors] i
        cold_device_init)
  then obtain s1 s2 where
    r: "snd (BME680Sensor_create_sensors two_bme_config ?env) = Inr [s1, s2]"
    by blast
  from shared [THEN conjunct2, rule_format, OF r]
  have "i2c_device (sensor_bme s1) = Some 11" "i2c_device (sensor_bme s2) = Some 11"
    by (simp_all add: host_def both_buses_def)
  then have d: "map_sum id (map (\<lambda>s. i2c_device (sensor_bme s)))
        (snd (BME680Sensor_create_sensors two_bme_config ?env)) = Inr [Some 11, Some 11]"
    by (simp add: r)
  from t0 t1 shared [THEN conjunct1] d show ?thesis by (intro conjI)
qed

section \<open>Properties of the acquisition loop\<close>

lemma attempt_loop_trace: "set (fst (attempt_loop n d)) \<subseteq> {Sleep (1 / 2)}"
proof (induction n arbitrary: d)
  case 0
  show ?case by simp
next
  case (Suc n)
  show ?case
  proof (cases "get_sensor_data d")
    case (Inl e)
    then show ?thesis by simp
  next
    case (Inr r)
    obtain new d' where "r = (new, d')" by (cases r)
    with Inr Suc [of d'] show ?thesis by auto
  qed
qed

lemma attempt_loop_driver:
  "attempt_loop n d = (tr, Inr (found, d')) \<Longrightarrow>
   hardware d' = hardware d \<and> i2c_addr d' = i2c_addr d \<and> i2c_device d' = i2c_device d"
proof (induction n arbitrary: d tr)
  case 0
  then show ?case by simp
next
  case (Suc n)
  from Suc.prems obtain new fd where o: "hardware d (calls d) = Returns new fd"
    by (cases "hardware d (calls d)") (auto simp: get_sensor_data_def)
  let ?d = "d\<lparr>data := fd, calls := Suc (calls d)\<rparr>"
  show ?case
  proof (cases "new \<and> heat_stable fd")
    case True
    with Suc.prems o show ?thesis by (auto simp: get_sensor_data_def)
  next
    case False
    with Suc.prems o obtain tr' where "attempt_loop n ?d = (tr', Inr (found, d'))"
      by (cases "attempt_loop n ?d") (auto simp: get_sensor_data_def)
    from Suc.IH [OF this] show ?thesis by simp
  qed
qed

lemma BME680Sensor_topics_and_values_mqtt_id:
  "BME680Sensor_topics_and_values cfg s = (tr, Inr (tvs, s')) \<Longrightarrow> mqtt_id s' = mqtt_id s"
  by (auto simp: BME680Sensor_topics_and_values_def
      split: prod.splits sum.splits bool.splits)

lemma W1Sensor_topics_and_values_mqtt_id:
  "W1Sensor_topics_and_values cfg s = (tr, Inr (tvs, s')) \<Longrightarrow> mqtt_id s' = mqtt_id s"
  by (auto simp: W1Sensor_topics_and_values_def split: sum.splits)

lemma topics_and_values_mqtt_id:
  "topics_and_values cfg s = (tr, Inr (tvs, s')) \<Longrightarrow> sensor_mqtt_id s' = sensor_mqtt_id s"
proof (cases s)
  case (BME b)
  assume "topics_and_values cfg s = (tr, Inr (tvs, s'))"
  with BME obtain b' where "BME680Sensor_topics_and_values cfg b = (tr, Inr (tvs, b'))"
    and "s' = BME b'"
    by (auto split: prod.splits sum.splits)
  with BME BME680Sensor_topics_and_values_mqtt_id [of cfg b tr tvs b'] show ?thesis by simp
next
  case (W1 w)
  assume "topics_and_values cfg s = (tr, Inr (tvs, s'))"
  with W1 obtain w' where "W1Sensor_topics_and_values cfg w = (tr, Inr (tvs, w'))"
    and "s' = W1 w'"
    by (auto split: prod.splits sum.splits)
  with W1 W1Sensor_topics_and_values_mqtt_id [of cfg w tr tvs w'] show ?thesis by simp
qed

lemma topics_and_values_trace: "set (fst (topics_and_values cfg s)) \<subseteq> {Sleep (1 / 2)}"
proof (cases s)
  case (BME b)
  have "fst (topics_and_values cfg (BME b)) = fst (attempt_loop 60 (sensor_bme b))"
    using readings_trace [of cfg b]
    by (cases "BME680Sensor_topics_and_values cfg b") (auto split: sum.splits)
  with BME attempt_loop_trace [of 60 "sensor_bme b"] show ?thesis by simp
next
  case (W1 w)
  then show ?thesis
    by (auto simp: W1Sensor_topics_and_values_def split: sum.splits)
qed

text \<open>
  A cycle's loop over the sensors: its messages are those of the sensors in list order,
  its effects are the sensors' waits, and the sensors keep their places and ids.
\<close>

lemma read_sensors_messages:
  "read_sensors cfg env sensors = (tr, Inr (messages, sensors')) \<Longrightarrow>
   messages = concat (map (\<lambda>s. map (to_message env) (yielded cfg s)) sensors)
   \<and> map sensor_mqtt_id sensors' = map sensor_mqtt_id sensors"
proof (induction sensors arbitrary: tr messages sensors')
  case Nil
  then show ?case by simp
next
  case (Cons s sensors)
  from Cons.prems obtain tr1 tvs s1 tr2 rest sensors2 where
    one: "topics_and_values cfg s = (tr1, Inr (tvs, s1))"
    and others: "read_sensors cfg env sensors = (tr2, Inr (rest, sensors2))"
    and messages: "messages = map (to_message env) tvs @ rest"
    and sensors': "sensors' = s1 # sensors2"
    by (auto split: prod.splits sum.splits)
  from one have "yielded cfg s = tvs"
    by (simp add: yielded_def)
  with Cons.IH [OF others] topics_and_values_mqtt_id [OF one] messages sensors'
  show ?case by simp
qed

lemma read_sensors_trace: "set (fst (read_sensors cfg env sensors)) \<subseteq> {Sleep (1 / 2)}"
proof (induction sensors)
  case Nil
  show ?case by simp
next
  case (Cons s sensors)
  with topics_and_values_trace [of cfg s] show ?case
    by (auto split: prod.splits sum.splits)
qed

lemma read_sensors_no_publish: "filter is_publish (fst (read_sensors cfg env sensors)) = []"
proof -
  have "\<forall>x\<in>set (fst (read_sensors cfg env sensors)). \<not> is_publish x"
    using read_sensors_trace [of cfg env sensors] by auto
  then show ?thesis by (simp add: filter_empty_conv)
qed

lemma sleep_delay_no_publish: "filter is_publish (fst (sleep_delay cfg env)) = []"
  by (auto simp: sleep_delay_def split: sum.splits)

lemma poll_cycle_mqtt_ids:
  "poll_cycle cfg env sensors = (tr, Inr sensors') \<Longrightarrow>
   map sensor_mqtt_id sensors' = map sensor_mqtt_id sensors"
  by (auto simp: poll_cycle_def split: prod.splits sum.splits option.splits
      dest: read_sensors_messages)

lemma polling_mqtt_ids:
  "polling n cfg env sensors = (tr, Inr sensors') \<Longrightarrow>
   map sensor_mqtt_id sensors' = map sensor_mqtt_id sensors"
proof (induction n arbitrary: sensors tr)
  case 0
  then show ?case by simp
next
  case (Suc n)
  from Suc.prems obtain tr1 sensors1 tr2 where
    one: "poll_cycle cfg env sensors = (tr1, Inr sensors1)"
    and rest: "polling n cfg env sensors1 = (tr2, Inr sensors')"
    by (cases "polling n cfg env (projr (snd (poll_cycle cfg env sensors)))")
      (auto split: prod.splits sum.splits)
  from Suc.IH [OF rest] poll_cycle_mqtt_ids [OF one] show ?case by simp
qed

lemma poll_cycle_publish:
  assumes r: "read_sensors cfg env sensors = (tr, Inr (messages, sensors'))"
    and m: "messages \<noteq> []"
    and s: "config_section cfg ''mqtt'' = Inr m"
    and b: "getitem m ''broker'' = Inr broker"
  shows "filter is_publish (fst (poll_cycle cfg env sensors)) = [Publish messages broker]"
proof -
  have tr: "filter is_publish tr = []"
    using read_sensors_no_publish [of cfg env sensors] r by simp
  have p: "publish_or_print cfg env messages =
      ([Publish messages broker], publish_multiple env messages broker)"
    using m s b by (simp add: publish_or_print_def)
  show ?thesis
  proof (cases "publish_multiple env messages broker")
    case (Some e)
    with r p tr show ?thesis by (simp add: poll_cycle_def)
  next
    case None
    obtain tr'' d where d: "sleep_delay cfg env = (tr'', d)"
      by (cases "sleep_delay cfg env")
    have "filter is_publish tr'' = []"
      using sleep_delay_no_publish [of cfg env] d by simp
    with None r p tr d show ?thesis
      by (cases d) (simp_all add: poll_cycle_def)
  qed
qed

lemma poll_cycle_silent:
  assumes r: "read_sensors cfg env sensors = (tr, Inr ([], sensors'))"
  shows "filter is_publish (fst (poll_cycle cfg env sensors)) = []"
proof -
  have tr: "filter is_publish tr = []"
    using read_sensors_no_publish [of cfg env sensors] r by simp
  have p: "publish_or_print cfg env [] = ([Print ''No messages to publish, bit weird.''], None)"
    by (simp add: publish_or_print_def)
  obtain tr'' d where d: "sleep_delay cfg env = (tr'', d)"
    by (cases "sleep_delay cfg env")
  have "filter is_publish tr'' = []"
    using sleep_delay_no_publish [of cfg env] d by simp
  with r p tr d show ?thesis
    by (cases d) (simp_all add: poll_cycle_def)
qed

text \<open>
  C5. In a polling cycle in which every sensor's read returns, the batch is exactly the
  pairs the sensors yielded, in order, each with its value stringified, so a sensor
  that yielded nothing contributes nothing; the batch is empty exactly when every
  sensor yielded nothing, and then the publish collaborator is not called; otherwise
  (the broker being configured) it is called exactly once, with the whole batch.
\<close>

theorem publish_once_per_cycle:
  assumes "read_sensors cfg env sensors = (tr, Inr (messages, sensors'))"
  shows "messages = concat (map (\<lambda>s. map (to_message env) (yielded cfg s)) sensors)
     \<and> (messages = [] \<longleftrightarrow> list_all (\<lambda>s. yielded cfg s = []) sensors)
     \<and> (messages = [] \<longrightarrow> filter is_publish (fst (poll_cycle cfg env sensors)) = [])
     \<and> (\<forall>m broker.
          messages \<noteq> [] \<and> config_section cfg ''mqtt'' = Inr m \<and> getitem m ''broker'' = Inr broker
          \<longrightarrow> filter is_publish (fst (poll_cycle cfg env sensors)) = [Publish messages broker])"
proof (intro conjI allI impI)
  show batch: "messages = concat (map (\<lambda>s. map (to_message env) (yielded cfg s)) sensors)"
    using read_sensors_messages [OF assms] by simp
  show "messages = [] \<longleftrightarrow> list_all (\<lambda>s. yielded cfg s = []) sensors"
    unfolding batch by (simp add: list_all_iff)
  show "filter is_publish (fst (poll_cycle cfg env sensors)) = []" if "messages = []"
    using poll_cycle_silent [of cfg env sensors tr sensors'] assms that by simp
  show "filter is_publish (fst (poll_cycle cfg env sensors)) = [Publish messages broker]"
    if "messages \<noteq> [] \<and> config_section cfg ''mqtt'' = Inr m \<and> getitem m ''broker'' = Inr broker"
    for m broker
    using poll_cycle_publish [OF assms, of m broker] that by simp
qed

lemma slash_config_broker:
  "getitem [(''broker'', ''localhost''), (''topic_format'', ''{id}/{attribute}'')] ''broker''
     = Inr ''localhost''"
  by (simp add: getitem_def optionxform_def lower_def)

lemma warming_sensor_exhausted:
  "\<exists>d. topics_and_values slash_config (BME (warming_sensor 60)) =
     (replicate 60 (Sleep (1 / 2)), Inr ([], BME ((warming_sensor 60)\<lparr>sensor_bme := d\<rparr>)))"
proof -
  have "\<forall>i<60. unstable (hardware (sensor_bme (warming_sensor 60))
      (calls (sensor_bme (warming_sensor 60)) + i))"
    using warming_unstable [of 60] by (simp add: attempt_def)
  from attempt_loop_unstable [OF this] obtain d where
    "attempt_loop 60 (sensor_bme (warming_sensor 60)) =
       (replicate 60 (Sleep (1 / 2)), Inr (False, d))"
    by blast
  from readings_exhausted [OF this, of slash_config]
  have "topics_and_values slash_config (BME (warming_sensor 60)) =
     (replicate 60 (Sleep (1 / 2)), Inr ([], BME ((warming_sensor 60)\<lparr>sensor_bme := d\<rparr>)))"
    by simp
  then show ?thesis ..
qed

lemma garden_sensor_read:
  "topics_and_values slash_config (W1 garden_sensor) =
     ([], Inr ([(''garden/temperature'', 20)],
               W1 (garden_sensor\<lparr>sensor_w1 := (probe ''28-bb'')\<lparr>reads := 1\<rparr>\<rparr>)))"
  by (simp add: W1Sensor_topics_and_values_def slash_config_topic get_temperature_def
      garden_sensor_def probe_def)

lemma str_int_20: "str_int 20 = ''20''"
  by (simp add: str_int_def decimal.simps)

theorem publish_once_per_cycle_witness:
  "yielded slash_config (BME (warming_sensor 60)) = []
   \<and> yielded slash_config (W1 garden_sensor) = [(''garden/temperature'', 20)]
   \<and> config_section slash_config ''mqtt'' =
       Inr [(''broker'', ''localhost''), (''topic_format'', ''{id}/{attribute}'')]
   \<and> getitem [(''broker'', ''localhost''), (''topic_format'', ''{id}/{attribute}'')] ''broker''
       = Inr ''localhost''
   \<and> filter is_publish
        (fst (poll_cycle slash_config (host None no_bus no_device)
                [BME (warming_sensor 60), W1 garden_sensor]))
       = [Publish [\<lparr>topic = ''garden/temperature'', payload = ''20''\<rparr>] ''localhost'']"
proof -
  let ?env = "host None no_bus no_device :: int env"
  let ?batch = "[\<lparr>topic = ''garden/temperature'', payload = ''20''\<rparr>]"
  from warming_sensor_exhausted obtain d where
    b: "topics_and_values slash_config (BME (warming_sensor 60)) =
      (replicate 60 (Sleep (1 / 2)), Inr ([], BME ((warming_sensor 60)\<lparr>sensor_bme := d\<rparr>)))"
    by blast
  have yb: "yielded slash_config (BME (warming_sensor 60)) = []"
    by (simp add: yielded_def b del: topics_and_values.simps)
  have yw: "yielded slash_config (W1 garden_sensor) = [(''garden/temperature'', 20)]"
    by (simp add: yielded_def garden_sensor_read del: topics_and_values.simps)
  have r: "read_sensors slash_config ?env [BME (warming_sensor 60), W1 garden_sensor] =
      (replicate 60 (Sleep (1 / 2)),
       Inr (?batch,
            [BME ((warming_sensor 60)\<lparr>sensor_bme := d\<rparr>),
             W1 (garden_sensor\<lparr>sensor_w1 := (probe ''28-bb'')\<lparr>reads := 1\<rparr>\<rparr>)]))"
    by (simp add: b garden_sensor_read to_message_def host_def str_int_20
        del: topics_and_values.simps)
  have h: "?batch \<noteq> []
      \<and> config_section slash_config ''mqtt'' =
          Inr [(''broker'', ''localhost''), (''topic_format'', ''{id}/{attribute}'')]
      \<and> getitem [(''broker'', ''localhost''), (''topic_format'', ''{id}/{attribute}'')]
          ''broker'' = Inr ''localhost''"
    using slash_config_mqtt slash_config_broker by simp
  note once = publish_once_per_cycle
    [OF r, THEN conjunct2, THEN conjunct2, THEN conjunct2, rule_format, OF h]
  from yb yw slash_config_mqtt slash_config_broker once show ?thesis by (intro conjI)
qed

text \<open>
  C6. When both discovery procedures return and together produce no sensor, the process
  ends with the exception \<^verbatim>\<open>Exception("No sensors found.")\<close> having done nothing but
  open the buses: no cycle runs. A process that is running after any number of cycles has
  a non-empty sensor list.
\<close>

theorem no_sensors_fatal:
  "(\<forall>tr. BME680Sensor_create_sensors cfg env = (tr, Inr [])
          \<and> W1Sensor_create_sensors cfg env = Inr [] \<longrightarrow>
          main n cfg env = (tr, Inl (Exception ''No sensors found.''))
          \<and> set tr \<subseteq> {Open_bus 0, Open_bus 1})
   \<and> (\<forall>sensors. snd (main n cfg env) = Inr sensors \<longrightarrow> sensors \<noteq> [])"
proof (intro conjI allI impI)
  fix tr
  assume h: "BME680Sensor_create_sensors cfg env = (tr, Inr [])
      \<and> W1Sensor_create_sensors cfg env = Inr []"
  then show "main n cfg env = (tr, Inl (Exception ''No sensors found.''))"
    by (simp add: main_def)
  have "tr = fst (open_buses env [0, 1] None)"
    using h create_sensors_trace [of cfg env] by simp
  with open_buses_trace [of env "[0, 1]" None]
  show "set tr \<subseteq> {Open_bus 0, Open_bus 1}"
    by auto
next
  fix sensors
  assume r: "snd (main n cfg env) = Inr sensors"
  then obtain tr bmes w1s where
    b: "BME680Sensor_create_sensors cfg env = (tr, Inr bmes)"
    and w: "W1Sensor_create_sensors cfg env = Inr w1s"
    by (auto simp: main_def split: prod.splits sum.splits)
  let ?found = "map BME bmes @ map W1 w1s"
  have found: "?found \<noteq> []"
  proof
    assume "?found = []"
    with b w have "main n cfg env = (tr, Inl (Exception ''No sensors found.''))"
      by (simp add: main_def)
    with r show False by simp
  qed
  then have "main n cfg env = apfst ((@) tr) (polling n cfg env ?found)"
    using b w by (cases ?found) (simp_all add: main_def)
  with r obtain tr' where "polling n cfg env ?found = (tr', Inr sensors)"
    by (cases "polling n cfg env ?found") auto
  from polling_mqtt_ids [OF this] have "length sensors = length ?found"
    by (rule map_eq_imp_length_eq)
  with found show "sensors \<noteq> []"
    by auto
qed

theorem no_sensors_fatal_witness:
  "BME680Sensor_create_sensors slash_config (host None no_bus no_device)
     = ([Open_bus 0, Open_bus 1], Inr [])
   \<and> W1Sensor_create_sensors slash_config (host None no_bus no_device) = Inr []
   \<and> main 3 slash_config (host None no_bus no_device)
       = ([Open_bus 0, Open_bus 1], Inl (Exception ''No sensors found.''))"
proof -
  let ?env = "host None no_bus no_device :: int env"
  have "snd (BME680Sensor_create_sensors slash_config ?env) = Inr []"
    by (simp add: create_sensors_opened [OF no_bus_opened slash_config_bme680sensors]
        slash_config_general no_device_init)
  moreover have "fst (BME680Sensor_create_sensors slash_config ?env) = [Open_bus 0, Open_bus 1]"
    by (simp only: create_sensors_trace no_bus_opened fst_conv)
  ultimately have b: "BME680Sensor_create_sensors slash_config ?env
      = ([Open_bus 0, Open_bus 1], Inr [])"
    by (simp add: prod_eq_iff)
  have w: "W1Sensor_create_sensors slash_config ?env = Inr []"
    by (simp add: W1Sensor_create_sensors_def host_def)
  from b w have h: "BME680Sensor_create_sensors slash_config ?env
        = ([Open_bus 0, Open_bus 1], Inr [])
      \<and> W1Sensor_create_sensors slash_config ?env = Inr []"
    by (intro conjI)
  note fatal = no_sensors_fatal
    [of slash_config ?env 3, THEN conjunct1, rule_format, OF h, THEN conjunct1]
  from b w fatal show ?thesis by (intro conjI)
qed

section \<open>Properties of the sensor identities\<close>

lemma create_sensors_cases:
  assumes r: "snd (BME680Sensor_create_sensors cfg env) = Inr sensors"
  obtains dev items where
    "config_section cfg ''bme680sensors'' = Inr items"
    and "(items \<noteq> [] \<and> configured_sensors env dev items = Inr sensors)
       \<or> (items = [] \<and> sensors = [])
       \<or> (items = [] \<and>
           (\<exists>general s.
              config_section cfg ''general'' = Inr general
              \<and> BME680Sensor_init env
                   (get general ''hostname''
                      (takeWhile (\<lambda>c. c \<noteq> CHR ''.'') (gethostname env))) None dev = Inr s
              \<and> sensors = [s]))"
proof -
  obtain tr opened where o: "open_buses env [0, 1] None = (tr, opened)"
    by (cases "open_buses env [0, 1] None")
  from r o obtain dev where dev: "opened = Inr dev"
    by (cases opened) (auto simp: BME680Sensor_create_sensors_def simp del: open_buses.simps)
  note o = o [unfolded dev]
  from r obtain items where items: "config_section cfg ''bme680sensors'' = Inr items"
    using create_sensors_no_section [OF o, of cfg]
    by (cases "config_section cfg ''bme680sensors''") auto
  from r obtain listed where listed: "configured_sensors env dev items = Inr listed"
    by (cases "configured_sensors env dev items")
      (auto simp: create_sensors_opened [OF o items])
  show thesis
  proof (cases listed)
    case Nil
    with configured_sensors_length [OF listed] have empty: "items = []"
      by simp
    from r listed Nil have
      "sensors = []
       \<or> (\<exists>general s.
              config_section cfg ''general'' = Inr general
              \<and> BME680Sensor_init env
                   (get general ''hostname''
                      (takeWhile (\<lambda>c. c \<noteq> CHR ''.'') (gethostname env))) None dev = Inr s
              \<and> sensors = [s])"
      by (auto simp: create_sensors_opened [OF o items] split: sum.splits if_splits)
    with empty items that show thesis by blast
  next
    case (Cons x xs)
    with r listed have same: "sensors = listed"
      by (simp add: create_sensors_opened [OF o items])
    from Cons configured_sensors_length [OF listed] have "items \<noteq> []"
      by auto
    with same listed items that show thesis by blast
  qed
qed

lemma get_nonempty:
  "[] \<notin> snd ` set options \<Longrightarrow> fallback \<noteq> [] \<Longrightarrow> get options opt fallback \<noteq> []"
  by (auto simp: get_def split: option.splits dest!: map_of_SomeD) force

lemma W1Sensor_create_sensors_one:
  "available_sensors env = Some [p] \<Longrightarrow> config_section cfg ''general'' = Inr general \<Longrightarrow>
   W1Sensor_create_sensors cfg env =
     (case config_section cfg ''w1sensors'' of
        Inl e \<Rightarrow> Inl e
      | Inr w \<Rightarrow>
          Inr [\<lparr>mqtt_id =
                 get w (id' p)
                   (get general ''hostname''
                      (takeWhile (\<lambda>c. c \<noteq> CHR ''.'') (gethostname env))),
               sensor_w1 = p\<rparr>])"
  by (simp add: W1Sensor_create_sensors_def)

lemma W1Sensor_create_sensors_many:
  "available_sensors env = Some probes \<Longrightarrow> length probes \<noteq> 1 \<Longrightarrow>
   config_section cfg ''general'' = Inr general \<Longrightarrow>
   W1Sensor_create_sensors cfg env =
     W1Sensor_each cfg
       (get general ''hostname'' (takeWhile (\<lambda>c. c \<noteq> CHR ''.'') (gethostname env)))
       probes"
proof (cases probes)
  case Nil
  assume "available_sensors env = Some probes" "config_section cfg ''general'' = Inr general"
  with Nil show ?thesis by (simp add: W1Sensor_create_sensors_def)
next
  case (Cons p ps)
  assume a: "available_sensors env = Some probes" "config_section cfg ''general'' = Inr general"
    and "length probes \<noteq> 1"
  with Cons obtain q qs where ps: "ps = q # qs" by (cases ps) auto
  from a Cons ps show ?thesis by (simp add: W1Sensor_create_sensors_def Let_def)
qed

lemma W1Sensor_create_sensors_general:
  "available_sensors env = Some probes \<Longrightarrow> W1Sensor_create_sensors cfg env = Inr sensors \<Longrightarrow>
   \<exists>general. config_section cfg ''general'' = Inr general"
  by (cases "config_section cfg ''general''") (simp_all add: W1Sensor_create_sensors_def)

lemma W1Sensor_each_probes:
  "W1Sensor_each cfg hostname probes = Inr sensors \<Longrightarrow> map sensor_w1 sensors = probes"
  by (induction probes arbitrary: sensors) (auto split: sum.splits)

lemma W1Sensor_each_nonempty:
  "W1Sensor_each cfg hostname probes = Inr sensors \<Longrightarrow>
   config_section cfg ''w1sensors'' = Inr w \<Longrightarrow> [] \<notin> snd ` set w \<Longrightarrow>
   \<forall>s\<in>set sensors. mqtt_id s \<noteq> []"
proof (induction probes arbitrary: sensors)
  case Nil
  then show ?case by simp
next
  case (Cons p probes)
  from Cons.prems(1,2) obtain rest where
    rest: "W1Sensor_each cfg hostname probes = Inr rest"
    and sensors: "sensors =
      \<lparr>mqtt_id = get w (id' p) (hostname @ ''_'' @ id' p), sensor_w1 = p\<rparr> # rest"
    by (auto split: sum.splits)
  have "get w (id' p) (hostname @ ''_'' @ id' p) \<noteq> []"
    using Cons.prems(3) by (rule get_nonempty) simp
  with Cons.IH [OF rest Cons.prems(2,3)] sensors show ?case by simp
qed

lemma W1Sensor_each_section:
  "W1Sensor_each cfg hostname (p # probes) = Inr sensors \<Longrightarrow>
   \<exists>w. config_section cfg ''w1sensors'' = Inr w"
  by (auto split: sum.splits)

text \<open>
  C9, as stated, fails: with an empty \<^verbatim>\<open>hostname\<close> option in \<^verbatim>\<open>general\<close>, a lone
  probe gets the empty string as its \<^verbatim>\<open>mqtt_id\<close>.
\<close>

theorem empty_mqtt_id:
  "W1Sensor_create_sensors nameless_config (host (Some [probe ''28-aa'']) no_bus no_device)
     = Inr [\<lparr>mqtt_id = [], sensor_w1 = probe ''28-aa''\<rparr>]"
  by (simp add: W1Sensor_create_sensors_def host_def nameless_config_def config_section_def
      get_def optionxform_def lower_def probe_def)

text \<open>
  C9, amended: the \<^verbatim>\<open>mqtt_id\<close> a sensor of either class gets at construction during
  discovery is non-empty whenever no option of the configuration has an empty value and
  the host name does not begin with a dot or end there; and no read of a sensor and no
  polling cycle changes the \<^verbatim>\<open>mqtt_id\<close> of any sensor.
\<close>

theorem mqtt_id_nonempty_and_stable:
  fixes env :: "'v env"
  assumes filled: "\<forall>name options. config_section cfg name = Inr options \<longrightarrow> [] \<notin> snd ` set options"
    and named: "takeWhile (\<lambda>c. c \<noteq> CHR ''.'') (gethostname env) \<noteq> []"
  shows "(\<forall>sensors. snd (BME680Sensor_create_sensors cfg env) = Inr sensors \<longrightarrow>
            (\<forall>s\<in>set sensors. mqtt_id s \<noteq> []))
     \<and> (\<forall>sensors. W1Sensor_create_sensors cfg env = Inr sensors \<longrightarrow>
            (\<forall>s\<in>set sensors. mqtt_id s \<noteq> []))
     \<and> (\<forall>(s :: 'v sensor) tr tvs s'. topics_and_values cfg s = (tr, Inr (tvs, s')) \<longrightarrow>
            sensor_mqtt_id s' = sensor_mqtt_id s)
     \<and> (\<forall>n sensors tr sensors'. polling n cfg env sensors = (tr, Inr sensors') \<longrightarrow>
            map sensor_mqtt_id sensors' = map sensor_mqtt_id sensors)"
proof (intro conjI allI impI)
  fix sensors :: "'v BME680Sensor list"
  assume r: "snd (BME680Sensor_create_sensors cfg env) = Inr sensors"
  from r obtain dev items where
    items: "config_section cfg ''bme680sensors'' = Inr items"
    and cases: "(items \<noteq> [] \<and> configured_sensors env dev items = Inr sensors)
       \<or> (items = [] \<and> sensors = [])
       \<or> (items = [] \<and>
           (\<exists>general s.
              config_section cfg ''general'' = Inr general
              \<and> BME680Sensor_init env
                   (get general ''hostname''
                      (takeWhile (\<lambda>c. c \<noteq> CHR ''.'') (gethostname env))) None dev = Inr s
              \<and> sensors = [s]))"
    by (rule create_sensors_cases)
  from cases show "\<forall>s\<in>set sensors. mqtt_id s \<noteq> []"
  proof (elim disjE conjE exE)
    assume "configured_sensors env dev items = Inr sensors"
    from configured_sensors_fields [OF this] have "map mqtt_id sensors = map snd items"
      by simp
    then have "set (map mqtt_id sensors) = set (map snd items)"
      by simp
    then have same: "mqtt_id ` set sensors = snd ` set items"
      by simp
    note filled [rule_format, OF items]
    with same have "[] \<notin> mqtt_id ` set sensors"
      by simp
    then show ?thesis
      by (auto simp: image_iff)
  next
    assume "sensors = []"
    then show ?thesis by simp
  next
    fix general s
    assume g: "config_section cfg ''general'' = Inr general"
      and s: "BME680Sensor_init env
          (get general ''hostname'' (takeWhile (\<lambda>c. c \<noteq> CHR ''.'') (gethostname env)))
          None dev = Inr s"
      and sensors: "sensors = [s]"
    note filled [rule_format, OF g]
    from get_nonempty [OF this named] BME680Sensor_init_fields(1) [OF s] sensors
    show ?thesis by simp
  qed
next
  fix sensors :: "'v W1Sensor list"
  assume r: "W1Sensor_create_sensors cfg env = Inr sensors"
  show "\<forall>s\<in>set sensors. mqtt_id s \<noteq> []"
  proof (cases "available_sensors env")
    case None
    with r show ?thesis by (simp add: W1Sensor_create_sensors_def)
  next
    case (Some probes)
    from W1Sensor_create_sensors_general [OF Some r] obtain general where
      g: "config_section cfg ''general'' = Inr general" ..
    let ?hostname = "get general ''hostname''
        (takeWhile (\<lambda>c. c \<noteq> CHR ''.'') (gethostname env))"
    note filled [rule_format, OF g]
    from get_nonempty [OF this named] have hostname: "?hostname \<noteq> []" .
    show ?thesis
    proof (cases "length probes = 1")
      case True
      then obtain p where "probes = [p]"
        by (cases probes) auto
      with Some have one: "available_sensors env = Some [p]" by simp
      from r have
        "(case config_section cfg ''w1sensors'' of
            Inl e \<Rightarrow> Inl e
          | Inr w \<Rightarrow> Inr [\<lparr>mqtt_id = get w (id' p) ?hostname, sensor_w1 = p\<rparr>])
         = Inr sensors"
        by (simp only: W1Sensor_create_sensors_one [OF one g])
      then obtain w where w: "config_section cfg ''w1sensors'' = Inr w"
        and sensors: "sensors = [\<lparr>mqtt_id = get w (id' p) ?hostname, sensor_w1 = p\<rparr>]"
        by (cases "config_section cfg ''w1sensors''") auto
      note filled [rule_format, OF w]
      from get_nonempty [OF this hostname] sensors show ?thesis by simp
    next
      case False
      from r have each: "W1Sensor_each cfg ?hostname probes = Inr sensors"
        by (simp only: W1Sensor_create_sensors_many [OF Some False g])
      show ?thesis
      proof (cases probes)
        case Nil
        with each show ?thesis by simp
      next
        case (Cons p ps)
        from W1Sensor_each_section [OF each [unfolded Cons]] obtain w where
          w: "config_section cfg ''w1sensors'' = Inr w" ..
        note filled [rule_format, OF w]
        from W1Sensor_each_nonempty [OF each w this] show ?thesis .
      qed
    qed
  qed
next
  fix s :: "'v sensor" and tr tvs s'
  assume "topics_and_values cfg s = (tr, Inr (tvs, s'))"
  then show "sensor_mqtt_id s' = sensor_mqtt_id s"
    by (rule topics_and_values_mqtt_id)
next
  fix n and sensors :: "'v sensor list" and tr sensors'
  assume "polling n cfg env sensors = (tr, Inr sensors')"
  then show "map sensor_mqtt_id sensors' = map sensor_mqtt_id sensors"
    by (rule polling_mqtt_ids)
qed

lemma slash_topic:
  assumes "config_section cfg ''mqtt'' =
     Inr [(''broker'', ''localhost''), (''topic_format'', ''{id}/{attribute}'')]"
  shows "topic_for_attribute cfg s a = Inr (mqtt_id s @ ''/'' @ a)"
  using topic_for_attribute_render [OF assms slash_config_topic_format markup_slash, of s a]
  by (simp add: render_def)

lemma garden_config_mqtt:
  "config_section garden_config ''mqtt'' =
     Inr [(''broker'', ''localhost''), (''topic_format'', ''{id}/{attribute}'')]"
  by (simp add: garden_config_def config_section_def)

lemma garden_config_filled:
  "config_section garden_config name = Inr options \<Longrightarrow> [] \<notin> snd ` set options"
  by (auto simp: garden_config_def config_section_def split: if_splits)

lemma garden_probes_created:
  "W1Sensor_create_sensors garden_config
     (host (Some [probe ''28-aa'', probe ''28-bb'']) no_bus no_device)
   = Inr [\<lparr>mqtt_id = ''pi1_28-aa'', sensor_w1 = probe ''28-aa''\<rparr>,
          \<lparr>mqtt_id = ''garden'', sensor_w1 = probe ''28-bb''\<rparr>]"
  by (simp add: W1Sensor_create_sensors_def host_def garden_config_def config_section_def
      get_def optionxform_def lower_def probe_def)

lemma garden_sensor_read_garden:
  "topics_and_values garden_config (W1 garden_sensor) =
     ([], Inr ([(''garden/temperature'', 20)],
               W1 (garden_sensor\<lparr>sensor_w1 := (probe ''28-bb'')\<lparr>reads := 1\<rparr>\<rparr>)))"
  by (simp add: W1Sensor_topics_and_values_def slash_topic [OF garden_config_mqtt]
      get_temperature_def garden_sensor_def probe_def)

theorem mqtt_id_nonempty_and_stable_witness:
  "list_all (\<lambda>sec. list_all (\<lambda>kv. snd kv \<noteq> []) (snd sec)) garden_config
   \<and> takeWhile (\<lambda>c. c \<noteq> CHR ''.'')
        (gethostname (host (Some [probe ''28-aa'', probe ''28-bb'']) no_bus no_device))
       = ''pi1''
   \<and> W1Sensor_create_sensors garden_config
        (host (Some [probe ''28-aa'', probe ''28-bb'']) no_bus no_device)
       = Inr [\<lparr>mqtt_id = ''pi1_28-aa'', sensor_w1 = probe ''28-aa''\<rparr>,
              \<lparr>mqtt_id = ''garden'', sensor_w1 = probe ''28-bb''\<rparr>]
   \<and> list_all (\<lambda>s. mqtt_id s \<noteq> [])
        [\<lparr>mqtt_id = ''pi1_28-aa'', sensor_w1 = probe ''28-aa''\<rparr>,
         \<lparr>mqtt_id = ''garden'', sensor_w1 = probe ''28-bb''\<rparr>]
   \<and> topics_and_values garden_config (W1 garden_sensor) =
       ([], Inr ([(''garden/temperature'', 20)],
                 W1 (garden_sensor\<lparr>sensor_w1 := (probe ''28-bb'')\<lparr>reads := 1\<rparr>\<rparr>)))
   \<and> sensor_mqtt_id (W1 (garden_sensor\<lparr>sensor_w1 := (probe ''28-bb'')\<lparr>reads := 1\<rparr>\<rparr>))
       = sensor_mqtt_id (W1 garden_sensor)"
proof -
  let ?env = "host (Some [probe ''28-aa'', probe ''28-bb'']) no_bus no_device :: int env"
  have c: "list_all (\<lambda>sec. list_all (\<lambda>kv. snd kv \<noteq> []) (snd sec)) garden_config"
    by (simp add: garden_config_def)
  have f: "\<forall>name options.
      config_section garden_config name = Inr options \<longrightarrow> [] \<notin> snd ` set options"
    using garden_config_filled by blast
  have n: "takeWhile (\<lambda>c. c \<noteq> CHR ''.'') (gethostname ?env) = ''pi1''"
    by (simp add: host_def)
  then have n': "takeWhile (\<lambda>c. c \<noteq> CHR ''.'') (gethostname ?env) \<noteq> []"
    by simp
  note both = mqtt_id_nonempty_and_stable [OF f n']
  from both [THEN conjunct2, THEN conjunct1, rule_format, OF garden_probes_created]
  have ids: "list_all (\<lambda>s. mqtt_id s \<noteq> [])
        [\<lparr>mqtt_id = ''pi1_28-aa'', sensor_w1 = probe ''28-aa''\<rparr>,
         \<lparr>mqtt_id = ''garden'', sensor_w1 = probe ''28-bb''\<rparr> :: int W1Sensor]"
    by (simp add: list_all_iff)
  note same = both [THEN conjunct2, THEN conjunct2, THEN conjunct1, rule_format,
      OF garden_sensor_read_garden]
  from c n garden_probes_created ids garden_sensor_read_garden same
  show ?thesis by (intro conjI)
qed

section \<open>Properties of the batch order\<close>

lemma configured_sensors_addrs:
  "configured_sensors env dev items = Inr sensors \<Longrightarrow>
   map (\<lambda>s. i2c_addr (sensor_bme s)) sensors =
     map (\<lambda>item. case int_py env 16 (fst item) of
                    Inl e \<Rightarrow> None
                  | Inr a \<Rightarrow> if a = 0 then None else Some a) items"
proof (induction items arbitrary: sensors)
  case Nil
  then show ?case by simp
next
  case (Cons item items)
  obtain addr ident where item: "item = (addr, ident)" by (cases item)
  from Cons.prems item obtain a s rest where
    a: "int_py env 16 addr = Inr a"
    and s: "BME680Sensor_init env ident (Some a) dev = Inr s"
    and rest: "configured_sensors env dev items = Inr rest"
    and sensors: "sensors = s # rest"
    by (auto split: sum.splits)
  from BME680Sensor_init_fields(3) [OF s]
  have "i2c_addr (sensor_bme s) = (if a = 0 then None else Some a)"
    by simp
  with Cons.IH [OF rest] sensors item a show ?case by simp
qed

lemma W1Sensor_create_sensors_probes:
  assumes r: "W1Sensor_create_sensors cfg env = Inr sensors"
    and a: "available_sensors env = Some probes"
  shows "map sensor_w1 sensors = probes"
proof -
  from W1Sensor_create_sensors_general [OF a r] obtain general where
    g: "config_section cfg ''general'' = Inr general" ..
  let ?hostname = "get general ''hostname''
      (takeWhile (\<lambda>c. c \<noteq> CHR ''.'') (gethostname env))"
  show ?thesis
  proof (cases "length probes = 1")
    case True
    then obtain p where p: "probes = [p]"
      by (cases probes) auto
    with a have one: "available_sensors env = Some [p]" by simp
    from r have
      "(case config_section cfg ''w1sensors'' of
          Inl e \<Rightarrow> Inl e
        | Inr w \<Rightarrow> Inr [\<lparr>mqtt_id = get w (id' p) ?hostname, sensor_w1 = p\<rparr>])
       = Inr sensors"
      by (simp only: W1Sensor_create_sensors_one [OF one g])
    then obtain w where
      "sensors = [\<lparr>mqtt_id = get w (id' p) ?hostname, sensor_w1 = p\<rparr>]"
      by (cases "config_section cfg ''w1sensors''") auto
    with p show ?thesis by simp
  next
    case False
    from r have "W1Sensor_each cfg ?hostname probes = Inr sensors"
      by (simp only: W1Sensor_create_sensors_many [OF a False g])
    then show ?thesis by (rule W1Sensor_each_probes)
  qed
qed

lemma readings_order:
  assumes r: "BME680Sensor_topics_and_values cfg s = (tr, Inr (tvs, s'))"
    and n: "tvs \<noteq> []"
  shows "map snd tvs =
      [temperature (data (sensor_bme s')), humidity (data (sensor_bme s')),
       pressure (data (sensor_bme s')), gas_resistance (data (sensor_bme s'))]"
    and "map (\<lambda>tv. Inr (fst tv)) tvs =
      map (topic_for_attribute cfg s) [''temperature'', ''humidity'', ''pressure'', ''gas_resistance'']"
proof -
  obtain tr0 r0 where l: "attempt_loop 60 (sensor_bme s) = (tr0, r0)"
    by (cases "attempt_loop 60 (sensor_bme s)")
  from r l obtain found d where r0: "r0 = Inr (found, d)"
    by (cases r0) (auto simp: BME680Sensor_topics_and_values_def)
  from r l r0 n have found: "found"
    by (cases found) (auto simp: BME680Sensor_topics_and_values_def)
  from r l r0 found obtain t1 t2 t3 t4 where
    t: "topic_for_attribute cfg s ''temperature'' = Inr t1"
      "topic_for_attribute cfg s ''humidity'' = Inr t2"
      "topic_for_attribute cfg s ''pressure'' = Inr t3"
      "topic_for_attribute cfg s ''gas_resistance'' = Inr t4"
    by (auto simp: BME680Sensor_topics_and_values_def split: sum.splits)
  from l r0 found have l': "attempt_loop 60 (sensor_bme s) = (tr0, Inr (True, d))"
    by simp
  from readings_stable [OF l' t] r
  have tvs: "tvs = [(t1, temperature (data d)), (t2, humidity (data d)),
                (t3, pressure (data d)), (t4, gas_resistance (data d))]"
    and s': "s' = s\<lparr>sensor_bme := d\<rparr>"
    by simp_all
  show "map snd tvs =
      [temperature (data (sensor_bme s')), humidity (data (sensor_bme s')),
       pressure (data (sensor_bme s')), gas_resistance (data (sensor_bme s'))]"
    by (simp add: tvs s')
  show "map (\<lambda>tv. Inr (fst tv)) tvs =
      map (topic_for_attribute cfg s) [''temperature'', ''humidity'', ''pressure'', ''gas_resistance'']"
    by (simp add: tvs t)
qed

lemma same_sensor_refl: "same_sensor s s"
  by (cases s) simp_all

lemma same_sensor_trans: "same_sensor a b \<Longrightarrow> same_sensor b c \<Longrightarrow> same_sensor a c"
  by (cases a; cases b; cases c) simp_all

lemma same_sensors_refl: "list_all2 same_sensor sensors sensors"
  by (simp add: list_all2_refl same_sensor_refl)

lemma same_sensors_trans:
  "list_all2 same_sensor xs ys \<Longrightarrow> list_all2 same_sensor ys zs \<Longrightarrow>
   list_all2 same_sensor xs zs"
  using list_all2_trans [of same_sensor same_sensor same_sensor xs ys zs] same_sensor_trans
  by blast

lemma BME680Sensor_topics_and_values_same:
  assumes "BME680Sensor_topics_and_values cfg s = (tr, Inr (tvs, s'))"
  shows "same_sensor (BME s) (BME s')"
proof -
  obtain tr0 r0 where l: "attempt_loop 60 (sensor_bme s) = (tr0, r0)"
    by (cases "attempt_loop 60 (sensor_bme s)")
  from assms l obtain found d where r0: "r0 = Inr (found, d)"
    by (cases r0) (auto simp: BME680Sensor_topics_and_values_def)
  from assms l r0 have s': "s' = s\<lparr>sensor_bme := d\<rparr>"
    by (cases found) (auto simp: BME680Sensor_topics_and_values_def split: sum.splits)
  from attempt_loop_driver [OF l [unfolded r0]] s' show ?thesis
    by simp
qed

lemma W1Sensor_topics_and_values_same:
  assumes "W1Sensor_topics_and_values cfg s = (tr, Inr (tvs, s'))"
  shows "same_sensor (W1 s) (W1 s')"
  using assms
  by (auto simp: W1Sensor_topics_and_values_def get_temperature_def split: sum.splits)

lemma topics_and_values_same:
  assumes r: "topics_and_values cfg s = (tr, Inr (tvs, s'))"
  shows "same_sensor s s'"
proof (cases s)
  case (BME b)
  with r obtain b' where "BME680Sensor_topics_and_values cfg b = (tr, Inr (tvs, b'))"
    and "s' = BME b'"
    by (auto split: prod.splits sum.splits)
  with BME BME680Sensor_topics_and_values_same [of cfg b tr tvs b'] show ?thesis by simp
next
  case (W1 w)
  with r obtain w' where "W1Sensor_topics_and_values cfg w = (tr, Inr (tvs, w'))"
    and "s' = W1 w'"
    by (auto split: prod.splits sum.splits)
  with W1 W1Sensor_topics_and_values_same [of cfg w tr tvs w'] show ?thesis by simp
qed

lemma read_sensors_same:
  "read_sensors cfg env sensors = (tr, Inr (messages, sensors')) \<Longrightarrow>
   list_all2 same_sensor sensors sensors'"
proof (induction sensors arbitrary: tr messages sensors')
  case Nil
  then show ?case by simp
next
  case (Cons s sensors)
  from Cons.prems obtain tr1 tvs s1 tr2 rest sensors2 where
    one: "topics_and_values cfg s = (tr1, Inr (tvs, s1))"
    and others: "read_sensors cfg env sensors = (tr2, Inr (rest, sensors2))"
    and sensors': "sensors' = s1 # sensors2"
    by (auto split: prod.splits sum.splits)
  from Cons.IH [OF others] topics_and_values_same [OF one] sensors'
  show ?case by simp
qed

lemma poll_cycle_read:
  "poll_cycle cfg env sensors = (tr, Inr sensors') \<Longrightarrow>
   \<exists>tr0 messages. read_sensors cfg env sensors = (tr0, Inr (messages, sensors'))"
  by (auto simp: poll_cycle_def split: prod.splits sum.splits option.splits)

lemma poll_cycle_same:
  assumes "poll_cycle cfg env sensors = (tr, Inr sensors')"
  shows "list_all2 same_sensor sensors sensors'"
proof -
  from poll_cycle_read [OF assms] obtain tr0 messages where
    "read_sensors cfg env sensors = (tr0, Inr (messages, sensors'))" by blast
  then show ?thesis by (rule read_sensors_same)
qed

text \<open>Whatever a cycle publishes is the batch of the sensors in the order of its list.\<close>

lemma poll_cycle_publishes:
  assumes e: "e \<in> set (fst (poll_cycle cfg env sensors))" and p: "is_publish e"
  shows "\<exists>broker.
    e = Publish (concat (map (\<lambda>s. map (to_message env) (yielded cfg s)) sensors)) broker"
proof -
  obtain tr r where read: "read_sensors cfg env sensors = (tr, r)"
    by (cases "read_sensors cfg env sensors")
  have quiet: "\<not> is_publish x" if "x \<in> set tr" for x
    using read_sensors_trace [of cfg env sensors] read that by auto
  show ?thesis
  proof (cases r)
    case (Inl err)
    with read have "fst (poll_cycle cfg env sensors) = tr"
      by (simp add: poll_cycle_def)
    with e p quiet show ?thesis by auto
  next
    case (Inr got)
    obtain messages sensors' where got: "got = (messages, sensors')"
      by (cases got)
    from read Inr got have read': "read_sensors cfg env sensors = (tr, Inr (messages, sensors'))"
      by simp
    have batch: "messages = concat (map (\<lambda>s. map (to_message env) (yielded cfg s)) sensors)"
      using read_sensors_messages [OF read'] by simp
    obtain tr' q where pub: "publish_or_print cfg env messages = (tr', q)"
      by (cases "publish_or_print cfg env messages")
    obtain tr'' d where del: "sleep_delay cfg env = (tr'', d)"
      by (cases "sleep_delay cfg env")
    have quiet'': "\<not> is_publish x" if "x \<in> set tr''" for x
    proof -
      have "filter is_publish tr'' = []"
        using sleep_delay_no_publish [of cfg env] del by simp
      with that show ?thesis by (auto simp: filter_empty_conv)
    qed
    have "set (fst (poll_cycle cfg env sensors)) \<subseteq> set tr \<union> set tr' \<union> set tr''"
      using read' pub del by (cases q; cases d) (auto simp: poll_cycle_def)
    with e have "e \<in> set tr \<or> e \<in> set tr' \<or> e \<in> set tr''" by auto
    with p quiet quiet'' have "e \<in> set tr'" by auto
    moreover have "set tr' \<subseteq> {Print ''No messages to publish, bit weird.''}
        \<union> (\<Union>broker. {Publish messages broker})"
      using pub by (auto simp: publish_or_print_def split: if_splits sum.splits)
    ultimately obtain broker where "e = Publish messages broker"
      using p by auto
    with batch show ?thesis by blast
  qed
qed

lemma polling_publishes:
  "e \<in> set (fst (polling n cfg env sensors)) \<Longrightarrow> is_publish e \<Longrightarrow>
   \<exists>current broker.
     list_all2 same_sensor sensors current
     \<and> e = Publish (concat (map (\<lambda>s. map (to_message env) (yielded cfg s)) current)) broker"
proof (induction n arbitrary: sensors)
  case 0
  then show ?case by simp
next
  case (Suc n)
  obtain tr r where c: "poll_cycle cfg env sensors = (tr, r)"
    by (cases "poll_cycle cfg env sensors")
  show ?case
  proof (cases r)
    case (Inl err)
    with c have "fst (polling (Suc n) cfg env sensors) = fst (poll_cycle cfg env sensors)"
      by simp
    with Suc.prems poll_cycle_publishes [of e cfg env sensors] same_sensors_refl [of sensors]
    show ?thesis by auto
  next
    case (Inr sensors')
    with c have tr: "fst (polling (Suc n) cfg env sensors) = tr @ fst (polling n cfg env sensors')"
      by (cases "polling n cfg env sensors'") simp
    from Suc.prems(1) tr have "e \<in> set tr \<or> e \<in> set (fst (polling n cfg env sensors'))"
      by auto
    then show ?thesis
    proof
      assume "e \<in> set tr"
      with c have "e \<in> set (fst (poll_cycle cfg env sensors))" by simp
      from poll_cycle_publishes [OF this Suc.prems(2)] same_sensors_refl [of sensors]
      show ?thesis by auto
    next
      assume "e \<in> set (fst (polling n cfg env sensors'))"
      from Suc.IH [OF this Suc.prems(2)] obtain current broker where
        cur: "list_all2 same_sensor sensors' current"
        and e: "e = Publish (concat (map (\<lambda>s. map (to_message env) (yielded cfg s)) current))
                  broker"
        by blast
      from c Inr have "list_all2 same_sensor sensors sensors'"
        using poll_cycle_same [of cfg env sensors tr sensors'] by simp
      from same_sensors_trans [OF this cur] e show ?thesis by blast
    qed
  qed
qed

lemma polling_same:
  "polling n cfg env sensors = (tr, Inr sensors') \<Longrightarrow> list_all2 same_sensor sensors sensors'"
proof (induction n arbitrary: sensors tr)
  case 0
  then show ?case by (simp add: same_sensors_refl)
next
  case (Suc n)
  from Suc.prems obtain tr1 sensors1 tr2 where
    one: "poll_cycle cfg env sensors = (tr1, Inr sensors1)"
    and rest: "polling n cfg env sensors1 = (tr2, Inr sensors')"
    by (cases "polling n cfg env (projr (snd (poll_cycle cfg env sensors)))")
      (auto split: prod.splits sum.splits)
  from same_sensors_trans [OF poll_cycle_same [OF one] Suc.IH [OF rest]] show ?case .
qed

lemma create_sensors_no_publish:
  "x \<in> set (fst (BME680Sensor_create_sensors cfg env)) \<Longrightarrow> \<not> is_publish x"
  using open_buses_trace [of env "[0, 1]" None] create_sensors_trace [of cfg env]
  by auto

text \<open>
  C10. The sensor list of the polling loop is the environmental sensors followed by the
  one-wire sensors; the environmental sensors stand in the order of the items of the
  \<^verbatim>\<open>bme680sensors\<close> section (ids and addresses) and the one-wire sensors in the order
  of the enumerated probes. The batch of a cycle is the concatenation, in the order of
  that list, of what each sensor yielded, and a non-empty batch is published as it is.
  The list keeps its sensors and their order through every cycle, so every batch the
  process publishes, in whichever cycle, is the concatenation of what the sensors yield
  in the order of discovery: environmental sensors first, then one-wire probes. An
  environmental sensor that yields anything yields the topics and values of temperature,
  humidity, pressure and gas_resistance in that order, and every payload is \<^verbatim>\<open>str\<close> of
  the value.
\<close>

theorem batch_order:
  fixes env :: "'v env"
  shows
    "(\<forall>tr bmes w1s.
        BME680Sensor_create_sensors cfg env = (tr, Inr bmes)
        \<and> W1Sensor_create_sensors cfg env = Inr w1s
        \<and> map BME bmes @ map W1 w1s \<noteq> [] \<longrightarrow>
        main n cfg env = apfst ((@) tr) (polling n cfg env (map BME bmes @ map W1 w1s)))
     \<and> (\<forall>bmes items.
          snd (BME680Sensor_create_sensors cfg env) = Inr bmes
          \<and> config_section cfg ''bme680sensors'' = Inr items \<and> items \<noteq> [] \<longrightarrow>
          map mqtt_id bmes = map snd items
          \<and> map (\<lambda>s. i2c_addr (sensor_bme s)) bmes =
              map (\<lambda>item. case int_py env 16 (fst item) of
                             Inl e \<Rightarrow> None
                           | Inr a \<Rightarrow> if a = 0 then None else Some a) items)
     \<and> (\<forall>w1s probes.
          W1Sensor_create_sensors cfg env = Inr w1s \<and> available_sensors env = Some probes \<longrightarrow>
          map sensor_w1 w1s = probes)
     \<and> (\<forall>sensors tr messages sensors'.
          read_sensors cfg env sensors = (tr, Inr (messages, sensors')) \<longrightarrow>
          messages = concat (map (\<lambda>s. map (to_message env) (yielded cfg s)) sensors)
          \<and> map sensor_mqtt_id sensors' = map sensor_mqtt_id sensors
          \<and> (\<forall>m broker.
                messages \<noteq> [] \<and> config_section cfg ''mqtt'' = Inr m
                \<and> getitem m ''broker'' = Inr broker \<longrightarrow>
                filter is_publish (fst (poll_cycle cfg env sensors))
                  = [Publish messages broker]))
     \<and> (\<forall>(s :: 'v BME680Sensor) tr tvs s'.
          BME680Sensor_topics_and_values cfg s = (tr, Inr (tvs, s')) \<and> tvs \<noteq> [] \<longrightarrow>
          map snd tvs =
            [temperature (data (sensor_bme s')), humidity (data (sensor_bme s')),
             pressure (data (sensor_bme s')), gas_resistance (data (sensor_bme s'))]
          \<and> map (\<lambda>tv. Inr (fst tv)) tvs =
              map (topic_for_attribute cfg s)
                [''temperature'', ''humidity'', ''pressure'', ''gas_resistance''])
     \<and> (\<forall>t v. to_message env (t, v) = \<lparr>topic = t, payload = str_py env v\<rparr>)
     \<and> (\<forall>tr bmes w1s e.
          BME680Sensor_create_sensors cfg env = (tr, Inr bmes)
          \<and> W1Sensor_create_sensors cfg env = Inr w1s
          \<and> e \<in> set (fst (main n cfg env)) \<and> is_publish e \<longrightarrow>
          (\<exists>current broker.
             list_all2 same_sensor (map BME bmes @ map W1 w1s) current
             \<and> e = Publish
                   (concat (map (\<lambda>s. map (to_message env) (yielded cfg s)) current)) broker))
     \<and> (\<forall>m sensors tr sensors'.
          polling m cfg env sensors = (tr, Inr sensors') \<longrightarrow>
          list_all2 same_sensor sensors sensors')"
proof (intro conjI allI impI)
  fix tr and bmes :: "'v BME680Sensor list" and w1s :: "'v W1Sensor list"
  assume h: "BME680Sensor_create_sensors cfg env = (tr, Inr bmes)
      \<and> W1Sensor_create_sensors cfg env = Inr w1s
      \<and> map BME bmes @ map W1 w1s \<noteq> []"
  then show "main n cfg env = apfst ((@) tr) (polling n cfg env (map BME bmes @ map W1 w1s))"
    by (cases "map BME bmes @ map W1 w1s") (simp_all add: main_def)
next
  fix bmes :: "'v BME680Sensor list" and items
  assume h: "snd (BME680Sensor_create_sensors cfg env) = Inr bmes
      \<and> config_section cfg ''bme680sensors'' = Inr items \<and> items \<noteq> []"
  then have r: "snd (BME680Sensor_create_sensors cfg env) = Inr bmes" by simp
  from r obtain dev items' where
    items': "config_section cfg ''bme680sensors'' = Inr items'"
    and cases: "(items' \<noteq> [] \<and> configured_sensors env dev items' = Inr bmes)
       \<or> (items' = [] \<and> bmes = [])
       \<or> (items' = [] \<and>
           (\<exists>general s.
              config_section cfg ''general'' = Inr general
              \<and> BME680Sensor_init env
                   (get general ''hostname''
                      (takeWhile (\<lambda>c. c \<noteq> CHR ''.'') (gethostname env))) None dev = Inr s
              \<and> bmes = [s]))"
    by (rule create_sensors_cases)
  from items' h have "items' = items" by simp
  with cases h have listed: "configured_sensors env dev items = Inr bmes" by simp
  show "map mqtt_id bmes = map snd items"
    using configured_sensors_fields [OF listed] by simp
  show "map (\<lambda>s. i2c_addr (sensor_bme s)) bmes =
      map (\<lambda>item. case int_py env 16 (fst item) of
                     Inl e \<Rightarrow> None
                   | Inr a \<Rightarrow> if a = 0 then None else Some a) items"
    by (rule configured_sensors_addrs [OF listed])
next
  fix w1s :: "'v W1Sensor list" and probes
  assume "W1Sensor_create_sensors cfg env = Inr w1s \<and> available_sensors env = Some probes"
  then show "map sensor_w1 w1s = probes"
    using W1Sensor_create_sensors_probes [of cfg env w1s probes] by simp
next
  fix sensors :: "'v sensor list" and tr messages sensors'
  assume r: "read_sensors cfg env sensors = (tr, Inr (messages, sensors'))"
  show "messages = concat (map (\<lambda>s. map (to_message env) (yielded cfg s)) sensors)"
    using read_sensors_messages [OF r] by simp
  show "map sensor_mqtt_id sensors' = map sensor_mqtt_id sensors"
    using read_sensors_messages [OF r] by simp
  show "filter is_publish (fst (poll_cycle cfg env sensors)) = [Publish messages broker]"
    if "messages \<noteq> [] \<and> config_section cfg ''mqtt'' = Inr m \<and> getitem m ''broker'' = Inr broker"
    for m broker
    using poll_cycle_publish [OF r, of m broker] that by simp
next
  fix s :: "'v BME680Sensor" and tr tvs s'
  assume h: "BME680Sensor_topics_and_values cfg s = (tr, Inr (tvs, s')) \<and> tvs \<noteq> []"
  then have r: "BME680Sensor_topics_and_values cfg s = (tr, Inr (tvs, s'))" and n: "tvs \<noteq> []"
    by simp_all
  show "map snd tvs =
      [temperature (data (sensor_bme s')), humidity (data (sensor_bme s')),
       pressure (data (sensor_bme s')), gas_resistance (data (sensor_bme s'))]"
    by (rule readings_order(1) [OF r n])
  show "map (\<lambda>tv. Inr (fst tv)) tvs =
      map (topic_for_attribute cfg s) [''temperature'', ''humidity'', ''pressure'', ''gas_resistance'']"
    by (rule readings_order(2) [OF r n])
next
  fix t and v :: 'v
  show "to_message env (t, v) = \<lparr>topic = t, payload = str_py env v\<rparr>"
    by (simp add: to_message_def)
next
  fix tr and bmes :: "'v BME680Sensor list" and w1s :: "'v W1Sensor list" and e
  assume h: "BME680Sensor_create_sensors cfg env = (tr, Inr bmes)
      \<and> W1Sensor_create_sensors cfg env = Inr w1s
      \<and> e \<in> set (fst (main n cfg env)) \<and> is_publish e"
  let ?found = "map BME bmes @ map W1 w1s"
  have quiet: "\<not> is_publish x" if "x \<in> set tr" for x
    using create_sensors_no_publish [of x cfg env] h that by simp
  have "set (fst (main n cfg env)) \<subseteq> set tr \<union> set (fst (polling n cfg env ?found))"
  proof (cases ?found)
    case Nil
    with h have "main n cfg env = (tr, Inl (Exception ''No sensors found.''))"
      by (simp add: main_def)
    then show ?thesis by simp
  next
    case (Cons x xs)
    with h have "main n cfg env = apfst ((@) tr) (polling n cfg env ?found)"
      by (simp add: main_def)
    then show ?thesis
      by (cases "polling n cfg env ?found") simp
  qed
  with h quiet have "e \<in> set (fst (polling n cfg env ?found))"
    by auto
  with h show "\<exists>current broker.
      list_all2 same_sensor ?found current
      \<and> e = Publish (concat (map (\<lambda>s. map (to_message env) (yielded cfg s)) current)) broker"
    using polling_publishes [of e n cfg env ?found] by simp
next
  fix m and sensors :: "'v sensor list" and tr sensors'
  assume "polling m cfg env sensors = (tr, Inr sensors')"
  then show "list_all2 same_sensor sensors sensors'"
    by (rule polling_same)
qed

lemma two_bme_config_mqtt:
  "config_section two_bme_config ''mqtt'' =
     Inr [(''broker'', ''localhost''), (''topic_format'', ''{id}/{attribute}'')]"
  by (simp add: two_bme_config_def config_section_def)

lemma two_bme_config_general:
  "config_section two_bme_config ''general'' = Inr [(''delay'', ''60'')]"
  by (simp add: two_bme_config_def config_section_def)

lemma both_buses_opened:
  "open_buses (host probes both_buses devices) [0, 1] None
     = ([Open_bus 0, Open_bus 1], Inr (Some 11))"
  by (simp add: host_def both_buses_def)

lemma warm_device_init:
  "BME680Sensor_init (host probes buses warm_device) ident addr dev =
     Inr (warm_sensor ident (if addr \<noteq> None \<and> addr \<noteq> Some 0 then addr else None) dev 0 9)"
  by (simp add: BME680Sensor_init_def driver_new_def driver_set_def host_def warm_device_def
      warm_sensor_def)

lemma two_bme_created:
  "BME680Sensor_create_sensors two_bme_config (host probes both_buses warm_device) =
     ([Open_bus 0, Open_bus 1],
      Inr [warm_sensor ''attic'' (Some 119) (Some 11) 0 9,
           warm_sensor ''cellar'' (Some 118) (Some 11) 0 9])"
proof -
  let ?env = "host probes both_buses warm_device"
  have i: "int_py ?env 16 ''77'' = Inr 119" "int_py ?env 16 ''76'' = Inr 118"
    by (simp_all add: host_def int_known_def)
  have "snd (BME680Sensor_create_sensors two_bme_config ?env) =
      Inr [warm_sensor ''attic'' (Some 119) (Some 11) 0 9,
           warm_sensor ''cellar'' (Some 118) (Some 11) 0 9]"
    by (simp add: create_sensors_opened [OF both_buses_opened two_bme_config_bme680sensors]
        i warm_device_init)
  moreover have "fst (BME680Sensor_create_sensors two_bme_config ?env) = [Open_bus 0, Open_bus 1]"
    by (simp only: create_sensors_trace both_buses_opened fst_conv)
  ultimately show ?thesis
    by (simp add: prod_eq_iff)
qed

lemma lone_probe_created:
  "W1Sensor_create_sensors two_bme_config (host (Some [probe ''28-aa'']) buses devices)
     = Inr [\<lparr>mqtt_id = ''pi1'', sensor_w1 = probe ''28-aa''\<rparr>]"
  by (simp add: W1Sensor_create_sensors_def host_def two_bme_config_def config_section_def
      get_def optionxform_def lower_def probe_def)

lemma warm_sensor_read:
  assumes "config_section cfg ''mqtt'' =
     Inr [(''broker'', ''localhost''), (''topic_format'', ''{id}/{attribute}'')]"
  shows "BME680Sensor_topics_and_values cfg (warm_sensor ident addr dev n c) =
     ([], Inr ([(ident @ ''/temperature'', int c),
                (ident @ ''/humidity'', 100 + int c),
                (ident @ ''/pressure'', 200 + int c),
                (ident @ ''/gas_resistance'', 300 + int c)],
               warm_sensor ident addr dev c (Suc c)))"
proof -
  let ?s = "warm_sensor ident addr dev n c"
  let ?d = "sensor_bme ?s"
  have "attempt_loop 60 ?d =
      (replicate 0 (Sleep (1 / 2)),
       Inr (True, ?d\<lparr>data := sample c True, calls := calls ?d + 0 + 1\<rparr>))"
  proof (rule attempt_loop_stable)
    show "(0::nat) < 60" by simp
    show "\<forall>i<0. unstable (hardware ?d (calls ?d + i))" by simp
    show "hardware ?d (calls ?d + 0) = Returns True (sample c True)"
      by (simp add: warm_sensor_def warm_device_def)
    show "heat_stable (sample c True)" by (simp add: sample_def)
  qed
  then have l: "attempt_loop 60 ?d =
      ([], Inr (True, ?d\<lparr>data := sample c True, calls := calls ?d + 0 + 1\<rparr>))"
    by simp
  have t: "topic_for_attribute cfg ?s a = Inr (ident @ ''/'' @ a)" for a
    by (simp add: slash_topic [OF assms] warm_sensor_def)
  from readings_stable [OF l t t t t] show ?thesis
    by (simp add: warm_sensor_def sample_def)
qed

lemma lone_probe_read:
  assumes "config_section cfg ''mqtt'' =
     Inr [(''broker'', ''localhost''), (''topic_format'', ''{id}/{attribute}'')]"
  shows "W1Sensor_topics_and_values cfg
           \<lparr>mqtt_id = ''pi1'', sensor_w1 = (probe ''28-aa'')\<lparr>reads := r\<rparr>\<rparr> =
     ([], Inr ([(''pi1/temperature'', 20 + int r)],
               \<lparr>mqtt_id = ''pi1'', sensor_w1 = (probe ''28-aa'')\<lparr>reads := Suc r\<rparr>\<rparr>))"
  by (simp add: W1Sensor_topics_and_values_def slash_topic [OF assms] get_temperature_def
      probe_def)

lemma probe_unread: "probe i = (probe i)\<lparr>reads := 0\<rparr>"
  by (simp add: probe_def)

lemma str_int_examples:
  "str_int 9 = ''9''" "str_int 109 = ''109''" "str_int 209 = ''209''" "str_int 309 = ''309''"
  "str_int 10 = ''10''" "str_int 110 = ''110''" "str_int 210 = ''210''" "str_int 310 = ''310''"
  "str_int 21 = ''21''"
  by (simp_all add: str_int_def decimal.simps)

lemma sleep_delay_60:
  "sleep_delay two_bme_config (host probes buses devices) = ([Sleep 60], None)"
  by (simp add: sleep_delay_def two_bme_config_general getitem_def optionxform_def lower_def
      host_def int_known_def)

text \<open>One cycle of two warm environmental sensors and a lone probe.\<close>

lemma warm_cycle:
  "poll_cycle two_bme_config (host probes buses devices)
     [BME (warm_sensor ''attic'' a1 d1 n c), BME (warm_sensor ''cellar'' a2 d2 n c),
      W1 \<lparr>mqtt_id = ''pi1'', sensor_w1 = (probe ''28-aa'')\<lparr>reads := r\<rparr>\<rparr>] =
     ([Publish
         [\<lparr>topic = ''attic/temperature'', payload = str_int (int c)\<rparr>,
          \<lparr>topic = ''attic/humidity'', payload = str_int (100 + int c)\<rparr>,
          \<lparr>topic = ''attic/pressure'', payload = str_int (200 + int c)\<rparr>,
          \<lparr>topic = ''attic/gas_resistance'', payload = str_int (300 + int c)\<rparr>,
          \<lparr>topic = ''cellar/temperature'', payload = str_int (int c)\<rparr>,
          \<lparr>topic = ''cellar/humidity'', payload = str_int (100 + int c)\<rparr>,
          \<lparr>topic = ''cellar/pressure'', payload = str_int (200 + int c)\<rparr>,
          \<lparr>topic = ''cellar/gas_resistance'', payload = str_int (300 + int c)\<rparr>,
          \<lparr>topic = ''pi1/temperature'', payload = str_int (20 + int r)\<rparr>]
         ''localhost'',
       Sleep 60],
      Inr [BME (warm_sensor ''attic'' a1 d1 c (Suc c)), BME (warm_sensor ''cellar'' a2 d2 c (Suc c)),
           W1 \<lparr>mqtt_id = ''pi1'', sensor_w1 = (probe ''28-aa'')\<lparr>reads := Suc r\<rparr>\<rparr>])"
proof -
  let ?env = "host probes buses devices"
  let ?sensors = "[BME (warm_sensor ''attic'' a1 d1 n c), BME (warm_sensor ''cellar'' a2 d2 n c),
      W1 \<lparr>mqtt_id = ''pi1'', sensor_w1 = (probe ''28-aa'')\<lparr>reads := r\<rparr>\<rparr>]"
  let ?batch = "[\<lparr>topic = ''attic/temperature'', payload = str_int (int c)\<rparr>,
          \<lparr>topic = ''attic/humidity'', payload = str_int (100 + int c)\<rparr>,
          \<lparr>topic = ''attic/pressure'', payload = str_int (200 + int c)\<rparr>,
          \<lparr>topic = ''attic/gas_resistance'', payload = str_int (300 + int c)\<rparr>,
          \<lparr>topic = ''cellar/temperature'', payload = str_int (int c)\<rparr>,
          \<lparr>topic = ''cellar/humidity'', payload = str_int (100 + int c)\<rparr>,
          \<lparr>topic = ''cellar/pressure'', payload = str_int (200 + int c)\<rparr>,
          \<lparr>topic = ''cellar/gas_resistance'', payload = str_int (300 + int c)\<rparr>,
          \<lparr>topic = ''pi1/temperature'', payload = str_int (20 + int r)\<rparr>]"
  let ?after = "[BME (warm_sensor ''attic'' a1 d1 c (Suc c)),
      BME (warm_sensor ''cellar'' a2 d2 c (Suc c)),
      W1 \<lparr>mqtt_id = ''pi1'', sensor_w1 = (probe ''28-aa'')\<lparr>reads := Suc r\<rparr>\<rparr>]"
  have s: "str_py ?env = str_int"
    by (simp add: host_def)
  have r: "read_sensors two_bme_config ?env ?sensors = ([], Inr (?batch, ?after))"
    by (simp add: warm_sensor_read [OF two_bme_config_mqtt]
        lone_probe_read [OF two_bme_config_mqtt] to_message_def s)
  have p: "publish_or_print two_bme_config ?env ?batch = ([Publish ?batch ''localhost''], None)"
    by (simp add: publish_or_print_def two_bme_config_mqtt slash_config_broker host_def)
  show ?thesis
    unfolding poll_cycle_def r by (simp add: p sleep_delay_60)
qed

theorem batch_order_witness:
  "BME680Sensor_create_sensors two_bme_config
     (host (Some [probe ''28-aa'']) both_buses warm_device) =
     ([Open_bus 0, Open_bus 1],
      Inr [warm_sensor ''attic'' (Some 119) (Some 11) 0 9,
           warm_sensor ''cellar'' (Some 118) (Some 11) 0 9])
   \<and> W1Sensor_create_sensors two_bme_config
        (host (Some [probe ''28-aa'']) both_buses warm_device)
       = Inr [\<lparr>mqtt_id = ''pi1'', sensor_w1 = probe ''28-aa''\<rparr>]
   \<and> fst (main 2 two_bme_config (host (Some [probe ''28-aa'']) both_buses warm_device)) =
       [Open_bus 0, Open_bus 1,
        Publish
          [\<lparr>topic = ''attic/temperature'', payload = ''9''\<rparr>,
           \<lparr>topic = ''attic/humidity'', payload = ''109''\<rparr>,
           \<lparr>topic = ''attic/pressure'', payload = ''209''\<rparr>,
           \<lparr>topic = ''attic/gas_resistance'', payload = ''309''\<rparr>,
           \<lparr>topic = ''cellar/temperature'', payload = ''9''\<rparr>,
           \<lparr>topic = ''cellar/humidity'', payload = ''109''\<rparr>,
           \<lparr>topic = ''cellar/pressure'', payload = ''209''\<rparr>,
           \<lparr>topic = ''cellar/gas_resistance'', payload = ''309''\<rparr>,
           \<lparr>topic = ''pi1/temperature'', payload = ''20''\<rparr>]
          ''localhost'',
        Sleep 60,
        Publish
          [\<lparr>topic = ''attic/temperature'', payload = ''10''\<rparr>,
           \<lparr>topic = ''attic/humidity'', payload = ''110''\<rparr>,
           \<lparr>topic = ''attic/pressure'', payload = ''210''\<rparr>,
           \<lparr>topic = ''attic/gas_resistance'', payload = ''310''\<rparr>,
           \<lparr>topic = ''cellar/temperature'', payload = ''10''\<rparr>,
           \<lparr>topic = ''cellar/humidity'', payload = ''110''\<rparr>,
           \<lparr>topic = ''cellar/pressure'', payload = ''210''\<rparr>,
           \<lparr>topic = ''cellar/gas_resistance'', payload = ''310''\<rparr>,
           \<lparr>topic = ''pi1/temperature'', payload = ''21''\<rparr>]
          ''localhost'',
        Sleep 60]
   \<and> (\<exists>current broker.
         list_all2 same_sensor
           [BME (warm_sensor ''attic'' (Some 119) (Some 11) 0 9),
            BME (warm_sensor ''cellar'' (Some 118) (Some 11) 0 9),
            W1 \<lparr>mqtt_id = ''pi1'', sensor_w1 = probe ''28-aa''\<rparr>] current
         \<and> Publish
              [\<lparr>topic = ''attic/temperature'', payload = ''10''\<rparr>,
               \<lparr>topic = ''attic/humidity'', payload = ''110''\<rparr>,
               \<lparr>topic = ''attic/pressure'', payload = ''210''\<rparr>,
               \<lparr>topic = ''attic/gas_resistance'', payload = ''310''\<rparr>,
               \<lparr>topic = ''cellar/temperature'', payload = ''10''\<rparr>,
               \<lparr>topic = ''cellar/humidity'', payload = ''110''\<rparr>,
               \<lparr>topic = ''cellar/pressure'', payload = ''210''\<rparr>,
               \<lparr>topic = ''cellar/gas_resistance'', payload = ''310''\<rparr>,
               \<lparr>topic = ''pi1/temperature'', payload = ''21''\<rparr>]
              ''localhost''
             = Publish
                 (concat (map (\<lambda>s. map (to_message
                                       (host (Some [probe ''28-aa'']) both_buses warm_device))
                                  (yielded two_bme_config s)) current))
                 broker)"
proof -
  let ?env = "host (Some [probe ''28-aa'']) both_buses warm_device :: int env"
  let ?cfg = two_bme_config
  let ?bmes = "[warm_sensor ''attic'' (Some 119) (Some 11) 0 9,
                warm_sensor ''cellar'' (Some 118) (Some 11) 0 9]"
  let ?w1s = "[\<lparr>mqtt_id = ''pi1'', sensor_w1 = probe ''28-aa''\<rparr>] :: int W1Sensor list"
  let ?first = "[\<lparr>topic = ''attic/temperature'', payload = ''9''\<rparr>,
           \<lparr>topic = ''attic/humidity'', payload = ''109''\<rparr>,
           \<lparr>topic = ''attic/pressure'', payload = ''209''\<rparr>,
           \<lparr>topic = ''attic/gas_resistance'', payload = ''309''\<rparr>,
           \<lparr>topic = ''cellar/temperature'', payload = ''9''\<rparr>,
           \<lparr>topic = ''cellar/humidity'', payload = ''109''\<rparr>,
           \<lparr>topic = ''cellar/pressure'', payload = ''209''\<rparr>,
           \<lparr>topic = ''cellar/gas_resistance'', payload = ''309''\<rparr>,
           \<lparr>topic = ''pi1/temperature'', payload = ''20''\<rparr>]"
  let ?second = "[\<lparr>topic = ''attic/temperature'', payload = ''10''\<rparr>,
           \<lparr>topic = ''attic/humidity'', payload = ''110''\<rparr>,
           \<lparr>topic = ''attic/pressure'', payload = ''210''\<rparr>,
           \<lparr>topic = ''attic/gas_resistance'', payload = ''310''\<rparr>,
           \<lparr>topic = ''cellar/temperature'', payload = ''10''\<rparr>,
           \<lparr>topic = ''cellar/humidity'', payload = ''110''\<rparr>,
           \<lparr>topic = ''cellar/pressure'', payload = ''210''\<rparr>,
           \<lparr>topic = ''cellar/gas_resistance'', payload = ''310''\<rparr>,
           \<lparr>topic = ''pi1/temperature'', payload = ''21''\<rparr>]"
  let ?start = "[BME (warm_sensor ''attic'' (Some 119) (Some 11) 0 9),
      BME (warm_sensor ''cellar'' (Some 118) (Some 11) 0 9),
      W1 \<lparr>mqtt_id = ''pi1'', sensor_w1 = (probe ''28-aa'')\<lparr>reads := 0\<rparr>\<rparr>]"
  let ?middle = "[BME (warm_sensor ''attic'' (Some 119) (Some 11) 9 10),
      BME (warm_sensor ''cellar'' (Some 118) (Some 11) 9 10),
      W1 \<lparr>mqtt_id = ''pi1'', sensor_w1 = (probe ''28-aa'')\<lparr>reads := Suc 0\<rparr>\<rparr>]"
  let ?final = "[BME (warm_sensor ''attic'' (Some 119) (Some 11) 10 11),
      BME (warm_sensor ''cellar'' (Some 118) (Some 11) 10 11),
      W1 \<lparr>mqtt_id = ''pi1'', sensor_w1 = (probe ''28-aa'')\<lparr>reads := Suc (Suc 0)\<rparr>\<rparr>]"
  note b = two_bme_created [of "Some [probe ''28-aa'']"]
  note w = lone_probe_created [of both_buses warm_device]
  have found: "map BME ?bmes @ map W1 ?w1s = ?start"
    using probe_unread [of "''28-aa''"] by simp
  have c1: "poll_cycle ?cfg ?env ?start = ([Publish ?first ''localhost'', Sleep 60], Inr ?middle)"
    using warm_cycle [of "Some [probe ''28-aa'']" both_buses warm_device
        "Some 119" "Some 11" 0 9 "Some 118" "Some 11" 0]
    by (simp add: str_int_examples str_int_20)
  have c2: "poll_cycle ?cfg ?env ?middle = ([Publish ?second ''localhost'', Sleep 60], Inr ?final)"
    using warm_cycle [of "Some [probe ''28-aa'']" both_buses warm_device
        "Some 119" "Some 11" 9 10 "Some 118" "Some 11" "Suc 0"]
    by (simp add: str_int_examples)
  have l: "polling (Suc (Suc 0)) ?cfg ?env ?start =
      ([Publish ?first ''localhost'', Sleep 60, Publish ?second ''localhost'', Sleep 60],
       Inr ?final)"
    unfolding polling.simps c1 by (simp add: c2)
  have h: "BME680Sensor_create_sensors ?cfg ?env = ([Open_bus 0, Open_bus 1], Inr ?bmes)
      \<and> W1Sensor_create_sensors ?cfg ?env = Inr ?w1s
      \<and> map BME ?bmes @ map W1 ?w1s \<noteq> []"
    using b w by simp
  note started = batch_order
    [of ?cfg ?env "Suc (Suc 0)", THEN conjunct1, rule_format, OF h, unfolded found]
  have two: "(2::nat) = Suc (Suc 0)" by simp
  have trace: "fst (main 2 ?cfg ?env) =
      [Open_bus 0, Open_bus 1, Publish ?first ''localhost'', Sleep 60,
       Publish ?second ''localhost'', Sleep 60]"
    unfolding two started l by simp
  have h': "BME680Sensor_create_sensors ?cfg ?env = ([Open_bus 0, Open_bus 1], Inr ?bmes)
      \<and> W1Sensor_create_sensors ?cfg ?env = Inr ?w1s
      \<and> Publish ?second ''localhost'' \<in> set (fst (main 2 ?cfg ?env))
      \<and> is_publish (Publish ?second ''localhost'')"
    using b w by (simp add: trace)
  note ordered = batch_order
    [of ?cfg ?env 2, THEN conjunct2, THEN conjunct2, THEN conjunct2, THEN conjunct2,
     THEN conjunct2, THEN conjunct2, THEN conjunct1, rule_format, OF h']
  then have ordered': "\<exists>current broker.
         list_all2 same_sensor
           [BME (warm_sensor ''attic'' (Some 119) (Some 11) 0 9),
            BME (warm_sensor ''cellar'' (Some 118) (Some 11) 0 9),
            W1 \<lparr>mqtt_id = ''pi1'', sensor_w1 = probe ''28-aa''\<rparr>] current
         \<and> Publish ?second ''localhost''
             = Publish
                 (concat (map (\<lambda>s. map (to_message ?env) (yielded ?cfg s)) current)) broker"
    by simp
  from b w trace ordered' show ?thesis by (intro conjI)
qed

end
